theory Spec2Isabelle
  imports Main
begin

section \<open>JavaScript values, strings and exceptions\<close>

text \<open>
  The dispatcher of the database server (class \<open>DatabaseMCPServer\<close>, file server.ts)
  handles untyped JSON arguments. A value is \<open>undefined\<close>, \<open>null\<close>, a boolean, a number,
  a string, an array or an object (an association list, first binding wins).

  A JavaScript string is a sequence of 16-bit code units; the strings of the model are
  those whose code units are below 256. A JavaScript number is a double; the numbers of
  the model are the integers, and no case of the dispatcher computes with them.
\<close>

datatype jsval =
    Undefined
  | Null
  | Bool bool
  | Num int
  | Str string
  | Arr "jsval list"
  | Obj "(string \<times> jsval) list"

text \<open>
  A thrown value: an \<open>Error\<close> object with its message (a \<open>TypeError\<close> raised by the engine
  is one, its message being that of Node.js), or a value that is not an \<open>Error\<close>, given by
  what \<open>String(error)\<close> returns for it.
\<close>

datatype thrown = ErrorObj string | NonError string

text \<open>Every asynchronous step either throws or returns; \<open>then_res\<close> sequences two steps.\<close>

fun then_res :: "thrown + 'a \<Rightarrow> ('a \<Rightarrow> thrown + 'b) \<Rightarrow> thrown + 'b" where
  "then_res (Inl e) f = Inl e"
| "then_res (Inr v) f = f v"

subsection \<open>Strings\<close>

text \<open>
  \<open>trim\<close> removes white space and line terminators at both ends; below 256 these are TAB,
  LF, VT, FF, CR, SPACE and NBSP.
\<close>

definition js_whitespace :: "char \<Rightarrow> bool" where
  "js_whitespace c \<longleftrightarrow> (of_char c :: nat) \<in> {9, 10, 11, 12, 13, 32, 160}"

definition trim :: "string \<Rightarrow> string" where
  "trim s = rev (dropWhile js_whitespace (rev (dropWhile js_whitespace s)))"

text \<open>
  \<open>toUpperCase\<close>, code unit by code unit: a..z go to A..Z, the small letters of the upper
  half (0xE0..0xFE but the division sign 0xF7) to their capitals 0x20 below, the sharp s
  0xDF to the two letters SS. The micro sign 0xB5 and the y with diaeresis 0xFF have their
  capitals above 255, outside the strings of the model; they are left as they are. No code
  unit below 256 other than a letter a..z becomes one of the letters A..Z.
\<close>

definition toUpperCase_char :: "char \<Rightarrow> string" where
  "toUpperCase_char c =
     (case map_of (zip ''abcdefghijklmnopqrstuvwxyz'' ''ABCDEFGHIJKLMNOPQRSTUVWXYZ'') c of
        Some u \<Rightarrow> [u]
      | None \<Rightarrow>
          if (of_char c :: nat) = 223 then ''SS''
          else if 224 \<le> (of_char c :: nat) \<and> (of_char c :: nat) \<le> 254
                  \<and> (of_char c :: nat) \<noteq> 247
          then [char_of ((of_char c :: nat) - 32)]
          else [c])"

definition toUpperCase :: "string \<Rightarrow> string" where
  "toUpperCase s = concat (map toUpperCase_char s)"

definition startsWith :: "string \<Rightarrow> string \<Rightarrow> bool" where
  "startsWith s p \<longleftrightarrow> take (length p) s = p"

text \<open>A name between single quotes, as the engine prints it in a message.\<close>

definition quoted :: "string \<Rightarrow> string" where
  "quoted s = CHR 0x27 # s @ [CHR 0x27]"

subsection \<open>Property access, destructuring and defaults\<close>

text \<open>
  \<open>get_prop v k\<close> is \<open>v.k\<close> for a value that is neither \<open>undefined\<close> nor \<open>null\<close>. The arguments of a
  request are an object or absent, so the properties that arrays and strings inherit from
  their prototypes are not modelled.
\<close>

fun get_prop :: "jsval \<Rightarrow> string \<Rightarrow> jsval" where
  "get_prop (Obj kvs) k = (case map_of kvs k of Some v \<Rightarrow> v | None \<Rightarrow> Undefined)"
| "get_prop v k = Undefined"

text \<open>
  \<open>const { first, ... } = args\<close> throws a \<open>TypeError\<close> when \<open>args\<close> is \<open>undefined\<close> or \<open>null\<close>.
  When the first property of the pattern has a default (\<open>const { first = d, ... } = args\<close>)
  the engine reports the failed read of that property instead.
\<close>

fun destructure :: "jsval \<Rightarrow> string \<Rightarrow> thrown + jsval" where
  "destructure Undefined first =
     Inl (ErrorObj (''Cannot destructure property '' @ quoted first @ '' of ''
                    @ quoted ''args'' @ '' as it is undefined.''))"
| "destructure Null first =
     Inl (ErrorObj (''Cannot destructure property '' @ quoted first @ '' of ''
                    @ quoted ''args'' @ '' as it is null.''))"
| "destructure v first = Inr v"

fun destructure_defaulted :: "jsval \<Rightarrow> string \<Rightarrow> thrown + jsval" where
  "destructure_defaulted Undefined first =
     Inl (ErrorObj (''Cannot read properties of undefined (reading '' @ quoted first @ '')''))"
| "destructure_defaulted Null first =
     Inl (ErrorObj (''Cannot read properties of null (reading '' @ quoted first @ '')''))"
| "destructure_defaulted v first = Inr v"

text \<open>\<open>args?.k\<close>\<close>

fun optprop :: "jsval \<Rightarrow> string \<Rightarrow> jsval" where
  "optprop Undefined k = Undefined"
| "optprop Null k = Undefined"
| "optprop v k = get_prop v k"

text \<open>A destructuring default \<open>{ k = d }\<close> applies to \<open>undefined\<close> only; \<open>v || d\<close> to every falsy value.\<close>

definition dflt :: "jsval \<Rightarrow> jsval \<Rightarrow> jsval" where
  "dflt v d = (if v = Undefined then d else v)"

fun falsy :: "jsval \<Rightarrow> bool" where
  "falsy Undefined = True"
| "falsy Null = True"
| "falsy (Bool b) = (\<not> b)"
| "falsy (Num n) = (n = 0)"
| "falsy (Str s) = (s = [])"
| "falsy v = False"

definition or_else :: "jsval \<Rightarrow> jsval \<Rightarrow> jsval" where
  "or_else v d = (if falsy v then d else v)"

text \<open>\<open>sql.trim()\<close>: a method of strings only.\<close>

fun js_trim :: "jsval \<Rightarrow> thrown + string" where
  "js_trim (Str s) = Inr (trim s)"
| "js_trim Undefined =
     Inl (ErrorObj (''Cannot read properties of undefined (reading '' @ quoted ''trim'' @ '')''))"
| "js_trim Null =
     Inl (ErrorObj (''Cannot read properties of null (reading '' @ quoted ''trim'' @ '')''))"
| "js_trim v = Inl (ErrorObj ''sql.trim is not a function'')"

text \<open>\<open>v.length\<close>\<close>

fun js_length :: "jsval \<Rightarrow> thrown + jsval" where
  "js_length (Arr xs) = Inr (Num (int (length xs)))"
| "js_length (Str s) = Inr (Num (int (length s)))"
| "js_length Undefined =
     Inl (ErrorObj (''Cannot read properties of undefined (reading '' @ quoted ''length'' @ '')''))"
| "js_length Null =
     Inl (ErrorObj (''Cannot read properties of null (reading '' @ quoted ''length'' @ '')''))"
| "js_length v = Inr (get_prop v ''length'')"

section \<open>The response envelope\<close>

text \<open>
  The text of a success response is \<open>JSON.stringify(payload, null, 2)\<close>; it is kept as the
  payload it serialises. The flag \<open>isError\<close> is absent from a success response.
\<close>

datatype text_payload = Literal string | JSON_stringify jsval

record content_item =
  ctype :: string
  ctext :: text_payload

record response =
  content :: "content_item list"
  isError :: "bool option"

definition success_response :: "jsval \<Rightarrow> response" where
  "success_response payload =
     \<lparr>content = [\<lparr>ctype = ''text'', ctext = JSON_stringify payload\<rparr>],
         isError = None\<rparr>"

text \<open>
  The catch block:
  \<^verbatim>\<open>const errorMessage = error instanceof Error ? error.message : String(error);\<close>
\<close>

fun errorMessage :: "thrown \<Rightarrow> string" where
  "errorMessage (ErrorObj m) = m"
| "errorMessage (NonError s) = s"

definition error_response :: "string \<Rightarrow> response" where
  "error_response msg =
     \<lparr>content = [\<lparr>ctype = ''text'', ctext = Literal (''Error: '' @ msg)\<rparr>],
         isError = Some True\<rparr>"

section \<open>Adapters and the server object\<close>

text \<open>
  An adapter is an object of a class named \<open>ctor_name\<close> whose methods are called by name
  with a list of arguments; a call throws or returns, and changes the adapter's own state.
\<close>

record 'a adapter =
  ctor_name :: string
  invoke :: "string \<Rightarrow> jsval list \<Rightarrow> 'a \<Rightarrow> (thrown + jsval) \<times> 'a"
  astate :: 'a

type_synonym invocation = "string \<times> jsval list"

record 'a server =
  adapter :: "'a adapter option"
  isRedis :: bool
  isMongo :: bool
  isLDAP :: bool
  readOnly :: bool

section \<open>The read-only flag of the dispatcher\<close>

text \<open>
  server.ts, constructor:
  \<^verbatim>\<open>this.readOnly = process.env.READ_ONLY_MODE !== "false" && process.env.READ_ONLY_MODE !== "0";\<close>
  The environment variable is \<open>None\<close> when it is not set.
\<close>

datatype PolicyMode = ReadOnly | ReadWrite

definition resolve_readOnly :: "string option \<Rightarrow> bool" where
  "resolve_readOnly env \<longleftrightarrow> env \<noteq> Some ''false'' \<and> env \<noteq> Some ''0''"

definition policy_mode :: "string option \<Rightarrow> PolicyMode" where
  "policy_mode env = (if resolve_readOnly env then ReadOnly else ReadWrite)"

text \<open>The constructor of \<open>DatabaseMCPServer\<close>; \<open>env\<close> is the value of \<open>READ_ONLY_MODE\<close>.\<close>

definition DatabaseMCPServer :: "'a adapter \<Rightarrow> string option \<Rightarrow> 'a server" where
  "DatabaseMCPServer a env =
     \<lparr>adapter = Some a,
      isRedis = (ctor_name a = ''RedisAdapter''),
      isMongo = (ctor_name a = ''MongoAdapter''),
      isLDAP = (ctor_name a = ''LDAPAdapter''),
      readOnly = resolve_readOnly env\<rparr>"

definition checkReadOnly :: "'a server \<Rightarrow> thrown + unit" where
  "checkReadOnly srv =
     (if readOnly srv
      then Inl (ErrorObj ''Server is running in read-only mode. Write operations are disabled.'')
      else Inr ())"

section \<open>The catalog: the ListTools handler\<close>

text \<open>
  A listed tool has a name, a description (not modelled) and an input schema of type
  \<open>object\<close>: its properties with their declared types, and the required ones.
\<close>

record Tool =
  name :: string
  properties :: "(string \<times> string) list"
  required :: "string list"

definition sql_tools :: "Tool list" where
  "sql_tools =
    [\<lparr>name = ''query'',
      properties = [(''sql'', ''string'')],
      required = [''sql'']\<rparr>,
     \<lparr>name = ''execute_sql'',
      properties = [(''sql'', ''string'')],
      required = [''sql'']\<rparr>,
     \<lparr>name = ''list_tables'',
      properties = [(''schema'', ''string'')],
      required = []\<rparr>,
     \<lparr>name = ''describe_table'',
      properties = [(''table'', ''string''), (''schema'', ''string'')],
      required = [''table'']\<rparr>,
     \<lparr>name = ''list_schemas'',
      properties = [],
      required = []\<rparr>,
     \<lparr>name = ''explain_query'',
      properties = [(''sql'', ''string'')],
      required = [''sql'']\<rparr>,
     \<lparr>name = ''get_indexes'',
      properties = [(''table'', ''string''), (''schema'', ''string'')],
      required = [''table'']\<rparr>,
     \<lparr>name = ''get_foreign_keys'',
      properties = [(''table'', ''string''), (''schema'', ''string'')],
      required = [''table'']\<rparr>,
     \<lparr>name = ''get_table_size'',
      properties = [(''table'', ''string''), (''schema'', ''string'')],
      required = [''table'']\<rparr>,
     \<lparr>name = ''list_views'',
      properties = [(''schema'', ''string'')],
      required = []\<rparr>,
     \<lparr>name = ''describe_view'',
      properties = [(''view'', ''string''), (''schema'', ''string'')],
      required = [''view'']\<rparr>,
     \<lparr>name = ''search_tables'',
      properties = [(''pattern'', ''string''), (''schema'', ''string'')],
      required = [''pattern'']\<rparr>,
     \<lparr>name = ''get_table_stats'',
      properties = [(''table'', ''string''), (''schema'', ''string'')],
      required = [''table'']\<rparr>]"

definition redis_tools :: "Tool list" where
  "redis_tools =
    [\<lparr>name = ''redis_get'',
      properties = [(''key'', ''string'')],
      required = [''key'']\<rparr>,
     \<lparr>name = ''redis_set'',
      properties = [(''key'', ''string''), (''value'', ''string''), (''ttl'', ''number'')],
      required = [''key'', ''value'']\<rparr>,
     \<lparr>name = ''redis_del'',
      properties = [(''key'', ''string'')],
      required = [''key'']\<rparr>,
     \<lparr>name = ''redis_keys'',
      properties = [(''pattern'', ''string'')],
      required = [''pattern'']\<rparr>,
     \<lparr>name = ''redis_exists'',
      properties = [(''key'', ''string'')],
      required = [''key'']\<rparr>,
     \<lparr>name = ''redis_ttl'',
      properties = [(''key'', ''string'')],
      required = [''key'']\<rparr>,
     \<lparr>name = ''redis_expire'',
      properties = [(''key'', ''string''), (''seconds'', ''number'')],
      required = [''key'', ''seconds'']\<rparr>,
     \<lparr>name = ''redis_type'',
      properties = [(''key'', ''string'')],
      required = [''key'']\<rparr>,
     \<lparr>name = ''redis_dbsize'',
      properties = [],
      required = []\<rparr>,
     \<lparr>name = ''redis_info'',
      properties = [(''section'', ''string'')],
      required = []\<rparr>,
     \<lparr>name = ''redis_hget'',
      properties = [(''key'', ''string''), (''field'', ''string'')],
      required = [''key'', ''field'']\<rparr>,
     \<lparr>name = ''redis_hset'',
      properties = [(''key'', ''string''), (''field'', ''string''), (''value'', ''string'')],
      required = [''key'', ''field'', ''value'']\<rparr>,
     \<lparr>name = ''redis_hgetall'',
      properties = [(''key'', ''string'')],
      required = [''key'']\<rparr>,
     \<lparr>name = ''redis_lrange'',
      properties = [(''key'', ''string''), (''start'', ''number''), (''stop'', ''number'')],
      required = [''key'', ''start'', ''stop'']\<rparr>,
     \<lparr>name = ''redis_smembers'',
      properties = [(''key'', ''string'')],
      required = [''key'']\<rparr>,
     \<lparr>name = ''redis_zrange'',
      properties = [(''key'', ''string''), (''start'', ''number''), (''stop'', ''number''),
          (''with_scores'', ''boolean'')],
      required = [''key'', ''start'', ''stop'']\<rparr>]"

definition mongo_tools :: "Tool list" where
  "mongo_tools =
    [\<lparr>name = ''mongo_find'',
      properties = [(''collection'', ''string''), (''filter'', ''object''), (''limit'',
          ''number''), (''skip'', ''number'')],
      required = [''collection'']\<rparr>,
     \<lparr>name = ''mongo_find_one'',
      properties = [(''collection'', ''string''), (''filter'', ''object'')],
      required = [''collection'']\<rparr>,
     \<lparr>name = ''mongo_insert_one'',
      properties = [(''collection'', ''string''), (''document'', ''object'')],
      required = [''collection'', ''document'']\<rparr>,
     \<lparr>name = ''mongo_insert_many'',
      properties = [(''collection'', ''string''), (''documents'', ''array'')],
      required = [''collection'', ''documents'']\<rparr>,
     \<lparr>name = ''mongo_update_one'',
      properties = [(''collection'', ''string''), (''filter'', ''object''), (''update'',
          ''object'')],
      required = [''collection'', ''filter'', ''update'']\<rparr>,
     \<lparr>name = ''mongo_update_many'',
      properties = [(''collection'', ''string''), (''filter'', ''object''), (''update'',
          ''object'')],
      required = [''collection'', ''filter'', ''update'']\<rparr>,
     \<lparr>name = ''mongo_delete_one'',
      properties = [(''collection'', ''string''), (''filter'', ''object'')],
      required = [''collection'', ''filter'']\<rparr>,
     \<lparr>name = ''mongo_delete_many'',
      properties = [(''collection'', ''string''), (''filter'', ''object'')],
      required = [''collection'', ''filter'']\<rparr>,
     \<lparr>name = ''mongo_count'',
      properties = [(''collection'', ''string''), (''filter'', ''object'')],
      required = [''collection'']\<rparr>,
     \<lparr>name = ''mongo_aggregate'',
      properties = [(''collection'', ''string''), (''pipeline'', ''array'')],
      required = [''collection'', ''pipeline'']\<rparr>,
     \<lparr>name = ''mongo_list_collections'',
      properties = [],
      required = []\<rparr>,
     \<lparr>name = ''mongo_get_collection_stats'',
      properties = [(''collection'', ''string'')],
      required = [''collection'']\<rparr>,
     \<lparr>name = ''mongo_get_indexes'',
      properties = [(''collection'', ''string'')],
      required = [''collection'']\<rparr>,
     \<lparr>name = ''mongo_create_index'',
      properties = [(''collection'', ''string''), (''keys'', ''object''), (''options'',
          ''object'')],
      required = [''collection'', ''keys'']\<rparr>,
     \<lparr>name = ''mongo_get_database_stats'',
      properties = [],
      required = []\<rparr>]"

definition ldap_tools :: "Tool list" where
  "ldap_tools =
    [\<lparr>name = ''ldap_search'',
      properties = [(''base'', ''string''), (''filter'', ''string''), (''scope'', ''string''),
          (''attributes'', ''array'')],
      required = [''base'', ''filter'']\<rparr>,
     \<lparr>name = ''ldap_authenticate'',
      properties = [(''dn'', ''string''), (''password'', ''string'')],
      required = [''dn'', ''password'']\<rparr>,
     \<lparr>name = ''ldap_add'',
      properties = [(''dn'', ''string''), (''attributes'', ''object'')],
      required = [''dn'', ''attributes'']\<rparr>,
     \<lparr>name = ''ldap_modify'',
      properties = [(''dn'', ''string''), (''change'', ''object'')],
      required = [''dn'', ''change'']\<rparr>,
     \<lparr>name = ''ldap_delete'',
      properties = [(''dn'', ''string'')],
      required = [''dn'']\<rparr>,
     \<lparr>name = ''ldap_compare'',
      properties = [(''dn'', ''string''), (''attribute'', ''string''), (''value'', ''string'')],
      required = [''dn'', ''attribute'', ''value'']\<rparr>,
     \<lparr>name = ''ldap_search_folder_structure'',
      properties = [(''base'', ''string''), (''depth'', ''number''), (''include_entries'',
          ''boolean'')],
      required = []\<rparr>,
     \<lparr>name = ''ldap_list_folders'',
      properties = [(''base'', ''string'')],
      required = []\<rparr>]"

definition ListTools :: "'a server \<Rightarrow> Tool list" where
  "ListTools srv =
     (if \<not> isRedis srv \<and> \<not> isMongo srv \<and> \<not> isLDAP srv then sql_tools else [])
     @ (if isRedis srv then redis_tools else [])
     @ (if isMongo srv then mongo_tools else [])
     @ (if isLDAP srv then ldap_tools else [])"

section \<open>The dispatcher: the CallTool handler\<close>

text \<open>
  The case labels of \<open>switch (name)\<close>, in the order of the source and in its four groups:
  the generic SQL tools, then the Redis, MongoDB and LDAP specific ones.
\<close>

datatype sql_tool =
    Query | Execute_sql | List_tables | Describe_table | List_schemas | Explain_query
  | Get_indexes | Get_foreign_keys | Get_table_size | List_views | Describe_view
  | Search_tables | Get_table_stats

datatype redis_tool =
   Redis_get | Redis_set | Redis_del | Redis_keys | Redis_exists | Redis_ttl
  | Redis_expire | Redis_type | Redis_dbsize | Redis_info | Redis_hget | Redis_hset
  | Redis_hgetall | Redis_lrange | Redis_smembers | Redis_zrange

datatype mongo_tool =
   Mongo_find | Mongo_find_one | Mongo_insert_one | Mongo_insert_many
  | Mongo_update_one | Mongo_update_many | Mongo_delete_one | Mongo_delete_many
  | Mongo_count | Mongo_aggregate | Mongo_list_collections | Mongo_get_collection_stats
  | Mongo_get_indexes | Mongo_create_index | Mongo_get_database_stats

datatype ldap_tool =
   Ldap_search | Ldap_authenticate | Ldap_add | Ldap_modify | Ldap_delete
  | Ldap_compare | Ldap_search_folder_structure | Ldap_list_folders

datatype tool = SQL sql_tool | Redis redis_tool | Mongo mongo_tool | LDAP ldap_tool

definition case_labels :: "(string \<times> tool) list" where
  "case_labels =
    [(''query'', SQL Query), (''execute_sql'', SQL Execute_sql), (''list_tables'', SQL List_tables),
     (''describe_table'', SQL Describe_table), (''list_schemas'', SQL List_schemas),
     (''explain_query'', SQL Explain_query), (''get_indexes'', SQL Get_indexes),
     (''get_foreign_keys'', SQL Get_foreign_keys), (''get_table_size'', SQL Get_table_size),
     (''list_views'', SQL List_views), (''describe_view'', SQL Describe_view),
     (''search_tables'', SQL Search_tables), (''get_table_stats'', SQL Get_table_stats),
     (''redis_get'', Redis Redis_get), (''redis_set'', Redis Redis_set), (''redis_del'',
         Redis Redis_del),
     (''redis_keys'', Redis Redis_keys), (''redis_exists'', Redis Redis_exists), (''redis_ttl'',
         Redis Redis_ttl),
     (''redis_expire'', Redis Redis_expire), (''redis_type'', Redis Redis_type),
     (''redis_dbsize'', Redis Redis_dbsize), (''redis_info'', Redis Redis_info),
     (''redis_hget'', Redis Redis_hget), (''redis_hset'', Redis Redis_hset),
     (''redis_hgetall'', Redis Redis_hgetall), (''redis_lrange'', Redis Redis_lrange),
     (''redis_smembers'', Redis Redis_smembers), (''redis_zrange'', Redis Redis_zrange),
     (''mongo_find'', Mongo Mongo_find), (''mongo_find_one'', Mongo Mongo_find_one),
     (''mongo_insert_one'', Mongo Mongo_insert_one), (''mongo_insert_many'',
         Mongo Mongo_insert_many),
     (''mongo_update_one'', Mongo Mongo_update_one), (''mongo_update_many'',
         Mongo Mongo_update_many),
     (''mongo_delete_one'', Mongo Mongo_delete_one), (''mongo_delete_many'',
         Mongo Mongo_delete_many),
     (''mongo_count'', Mongo Mongo_count), (''mongo_aggregate'', Mongo Mongo_aggregate),
     (''mongo_list_collections'', Mongo Mongo_list_collections),
     (''mongo_get_collection_stats'', Mongo Mongo_get_collection_stats),
     (''mongo_get_indexes'', Mongo Mongo_get_indexes), (''mongo_create_index'',
         Mongo Mongo_create_index),
     (''mongo_get_database_stats'', Mongo Mongo_get_database_stats),
     (''ldap_search'', LDAP Ldap_search), (''ldap_authenticate'', LDAP Ldap_authenticate),
     (''ldap_add'', LDAP Ldap_add), (''ldap_modify'', LDAP Ldap_modify), (''ldap_delete'',
         LDAP Ldap_delete),
     (''ldap_compare'', LDAP Ldap_compare),
     (''ldap_search_folder_structure'', LDAP Ldap_search_folder_structure),
     (''ldap_list_folders'', LDAP Ldap_list_folders)]"

definition tool_of_name :: "string \<Rightarrow> tool option" where
  "tool_of_name nm = map_of case_labels nm"

text \<open>
  The guard that opens every backend-specific case, for instance
  \<^verbatim>\<open>if (!this.isRedis) { throw new Error("This tool is only available for Redis"); }\<close>
\<close>

definition only_for :: "bool \<Rightarrow> string \<Rightarrow> thrown + unit" where
  "only_for flag what =
     (if \<not> flag then Inl (ErrorObj (''This tool is only available for '' @ what)) else Inr ())"

text \<open>
  Every case of the switch makes one call of an adapter method. \<open>before_call\<close> is the case up
  to that call: the read-only check, the backend guard and the destructuring of the
  arguments, in the order of the source; it throws, or gives the method and its arguments.
\<close>

primrec before_sql :: "sql_tool \<Rightarrow> 'a server \<Rightarrow> jsval \<Rightarrow> thrown + invocation" where
  "before_sql Query srv args =
     then_res (destructure args ''sql'') (\<lambda>a.
     then_res (js_trim (get_prop a ''sql'')) (\<lambda>t.
       if \<not> startsWith (toUpperCase t) ''SELECT''
       then Inl (ErrorObj ''Query tool only supports SELECT statements'')
       else Inr (''query'', [get_prop a ''sql''])))"
| "before_sql Execute_sql srv args =
     then_res (checkReadOnly srv) (\<lambda>_.
     then_res (destructure args ''sql'') (\<lambda>a.
       Inr (''execute'', [get_prop a ''sql''])))"
| "before_sql List_tables srv args =
     Inr (''listTables'', [or_else (optprop args ''schema'') (Str ''public'')])"
| "before_sql Describe_table srv args =
     then_res (destructure args ''table'') (\<lambda>a.
       Inr (''describeTable'', [get_prop a ''table'',
           dflt (get_prop a ''schema'') (Str ''public'')]))"
| "before_sql List_schemas srv args =
     Inr (''listSchemas'', [])"
| "before_sql Explain_query srv args =
     then_res (destructure args ''sql'') (\<lambda>a.
       Inr (''explainQuery'', [get_prop a ''sql'']))"
| "before_sql Get_indexes srv args =
     then_res (destructure args ''table'') (\<lambda>a.
       Inr (''getIndexes'', [get_prop a ''table'', dflt (get_prop a ''schema'') (Str ''public'')]))"
| "before_sql Get_foreign_keys srv args =
     then_res (destructure args ''table'') (\<lambda>a.
       Inr (''getForeignKeys'', [get_prop a ''table'',
           dflt (get_prop a ''schema'') (Str ''public'')]))"
| "before_sql Get_table_size srv args =
     then_res (destructure args ''table'') (\<lambda>a.
       Inr (''getTableSize'', [get_prop a ''table'',
           dflt (get_prop a ''schema'') (Str ''public'')]))"
| "before_sql List_views srv args =
     Inr (''listViews'', [or_else (optprop args ''schema'') (Str ''public'')])"
| "before_sql Describe_view srv args =
     then_res (destructure args ''view'') (\<lambda>a.
       Inr (''describeView'', [get_prop a ''view'',
           dflt (get_prop a ''schema'') (Str ''public'')]))"
| "before_sql Search_tables srv args =
     then_res (destructure args ''pattern'') (\<lambda>a.
       Inr (''searchTables'', [get_prop a ''pattern'',
           dflt (get_prop a ''schema'') (Str ''public'')]))"
| "before_sql Get_table_stats srv args =
     then_res (destructure args ''table'') (\<lambda>a.
       Inr (''getTableStats'', [get_prop a ''table'',
           dflt (get_prop a ''schema'') (Str ''public'')]))"

primrec before_redis :: "redis_tool \<Rightarrow> 'a server \<Rightarrow> jsval \<Rightarrow> thrown + invocation" where
  "before_redis Redis_get srv args =
     then_res (only_for (isRedis srv) ''Redis'') (\<lambda>_.
     then_res (destructure args ''key'') (\<lambda>a.
       Inr (''get'', [get_prop a ''key''])))"
| "before_redis Redis_set srv args =
     then_res (checkReadOnly srv) (\<lambda>_.
     then_res (only_for (isRedis srv) ''Redis'') (\<lambda>_.
     then_res (destructure args ''key'') (\<lambda>a.
       Inr (''set'', [get_prop a ''key'', get_prop a ''value'', get_prop a ''ttl'']))))"
| "before_redis Redis_del srv args =
     then_res (checkReadOnly srv) (\<lambda>_.
     then_res (only_for (isRedis srv) ''Redis'') (\<lambda>_.
     then_res (destructure args ''key'') (\<lambda>a.
       Inr (''del'', [get_prop a ''key'']))))"
| "before_redis Redis_keys srv args =
     then_res (only_for (isRedis srv) ''Redis'') (\<lambda>_.
     then_res (destructure args ''pattern'') (\<lambda>a.
       Inr (''keys'', [get_prop a ''pattern''])))"
| "before_redis Redis_exists srv args =
     then_res (only_for (isRedis srv) ''Redis'') (\<lambda>_.
     then_res (destructure args ''key'') (\<lambda>a.
       Inr (''exists'', [get_prop a ''key''])))"
| "before_redis Redis_ttl srv args =
     then_res (only_for (isRedis srv) ''Redis'') (\<lambda>_.
     then_res (destructure args ''key'') (\<lambda>a.
       Inr (''ttl'', [get_prop a ''key''])))"
| "before_redis Redis_expire srv args =
     then_res (checkReadOnly srv) (\<lambda>_.
     then_res (only_for (isRedis srv) ''Redis'') (\<lambda>_.
     then_res (destructure args ''key'') (\<lambda>a.
       Inr (''expire'', [get_prop a ''key'', get_prop a ''seconds'']))))"
| "before_redis Redis_type srv args =
     then_res (only_for (isRedis srv) ''Redis'') (\<lambda>_.
     then_res (destructure args ''key'') (\<lambda>a.
       Inr (''type'', [get_prop a ''key''])))"
| "before_redis Redis_dbsize srv args =
     then_res (only_for (isRedis srv) ''Redis'') (\<lambda>_.
       Inr (''dbsize'', []))"
| "before_redis Redis_info srv args =
     then_res (only_for (isRedis srv) ''Redis'') (\<lambda>_.
     then_res (destructure args ''section'') (\<lambda>a.
       Inr (''info'', [get_prop a ''section''])))"
| "before_redis Redis_hget srv args =
     then_res (only_for (isRedis srv) ''Redis'') (\<lambda>_.
     then_res (destructure args ''key'') (\<lambda>a.
       Inr (''hget'', [get_prop a ''key'', get_prop a ''field''])))"
| "before_redis Redis_hset srv args =
     then_res (checkReadOnly srv) (\<lambda>_.
     then_res (only_for (isRedis srv) ''Redis'') (\<lambda>_.
     then_res (destructure args ''key'') (\<lambda>a.
       Inr (''hset'', [get_prop a ''key'', get_prop a ''field'', get_prop a ''value'']))))"
| "before_redis Redis_hgetall srv args =
     then_res (only_for (isRedis srv) ''Redis'') (\<lambda>_.
     then_res (destructure args ''key'') (\<lambda>a.
       Inr (''hgetall'', [get_prop a ''key''])))"
| "before_redis Redis_lrange srv args =
     then_res (only_for (isRedis srv) ''Redis'') (\<lambda>_.
     then_res (destructure args ''key'') (\<lambda>a.
       Inr (''lrange'', [get_prop a ''key'', get_prop a ''start'', get_prop a ''stop''])))"
| "before_redis Redis_smembers srv args =
     then_res (only_for (isRedis srv) ''Redis'') (\<lambda>_.
     then_res (destructure args ''key'') (\<lambda>a.
       Inr (''smembers'', [get_prop a ''key''])))"
| "before_redis Redis_zrange srv args =
     then_res (only_for (isRedis srv) ''Redis'') (\<lambda>_.
     then_res (destructure args ''key'') (\<lambda>a.
       Inr (''zrange'', [get_prop a ''key'', get_prop a ''start'', get_prop a ''stop'',
           get_prop a ''with_scores''])))"

primrec before_mongo :: "mongo_tool \<Rightarrow> 'a server \<Rightarrow> jsval \<Rightarrow> thrown + invocation" where
  "before_mongo Mongo_find srv args =
     then_res (only_for (isMongo srv) ''MongoDB'') (\<lambda>_.
     then_res (destructure args ''collection'') (\<lambda>a.
       Inr (''find'', [get_prop a ''collection'', dflt (get_prop a ''filter'') (Obj []),
           dflt (get_prop a ''limit'') (Num 100), dflt (get_prop a ''skip'') (Num 0)])))"
| "before_mongo Mongo_find_one srv args =
     then_res (only_for (isMongo srv) ''MongoDB'') (\<lambda>_.
     then_res (destructure args ''collection'') (\<lambda>a.
       Inr (''findOne'', [get_prop a ''collection'', dflt (get_prop a ''filter'') (Obj [])])))"
| "before_mongo Mongo_insert_one srv args =
     then_res (checkReadOnly srv) (\<lambda>_.
     then_res (only_for (isMongo srv) ''MongoDB'') (\<lambda>_.
     then_res (destructure args ''collection'') (\<lambda>a.
       Inr (''insertOne'', [get_prop a ''collection'', get_prop a ''document'']))))"
| "before_mongo Mongo_insert_many srv args =
     then_res (checkReadOnly srv) (\<lambda>_.
     then_res (only_for (isMongo srv) ''MongoDB'') (\<lambda>_.
     then_res (destructure args ''collection'') (\<lambda>a.
       Inr (''insertMany'', [get_prop a ''collection'', get_prop a ''documents'']))))"
| "before_mongo Mongo_update_one srv args =
     then_res (checkReadOnly srv) (\<lambda>_.
     then_res (only_for (isMongo srv) ''MongoDB'') (\<lambda>_.
     then_res (destructure args ''collection'') (\<lambda>a.
       Inr (''updateOne'', [get_prop a ''collection'', get_prop a ''filter'',
           get_prop a ''update'']))))"
| "before_mongo Mongo_update_many srv args =
     then_res (checkReadOnly srv) (\<lambda>_.
     then_res (only_for (isMongo srv) ''MongoDB'') (\<lambda>_.
     then_res (destructure args ''collection'') (\<lambda>a.
       Inr (''updateMany'', [get_prop a ''collection'', get_prop a ''filter'',
           get_prop a ''update'']))))"
| "before_mongo Mongo_delete_one srv args =
     then_res (checkReadOnly srv) (\<lambda>_.
     then_res (only_for (isMongo srv) ''MongoDB'') (\<lambda>_.
     then_res (destructure args ''collection'') (\<lambda>a.
       Inr (''deleteOne'', [get_prop a ''collection'', get_prop a ''filter'']))))"
| "before_mongo Mongo_delete_many srv args =
     then_res (checkReadOnly srv) (\<lambda>_.
     then_res (only_for (isMongo srv) ''MongoDB'') (\<lambda>_.
     then_res (destructure args ''collection'') (\<lambda>a.
       Inr (''deleteMany'', [get_prop a ''collection'', get_prop a ''filter'']))))"
| "before_mongo Mongo_count srv args =
     then_res (only_for (isMongo srv) ''MongoDB'') (\<lambda>_.
     then_res (destructure args ''collection'') (\<lambda>a.
       Inr (''count'', [get_prop a ''collection'', dflt (get_prop a ''filter'') (Obj [])])))"
| "before_mongo Mongo_aggregate srv args =
     then_res (only_for (isMongo srv) ''MongoDB'') (\<lambda>_.
     then_res (destructure args ''collection'') (\<lambda>a.
       Inr (''aggregate'', [get_prop a ''collection'', get_prop a ''pipeline''])))"
| "before_mongo Mongo_list_collections srv args =
     then_res (only_for (isMongo srv) ''MongoDB'') (\<lambda>_.
       Inr (''listCollections'', []))"
| "before_mongo Mongo_get_collection_stats srv args =
     then_res (only_for (isMongo srv) ''MongoDB'') (\<lambda>_.
     then_res (destructure args ''collection'') (\<lambda>a.
       Inr (''getCollectionStats'', [get_prop a ''collection''])))"
| "before_mongo Mongo_get_indexes srv args =
     then_res (only_for (isMongo srv) ''MongoDB'') (\<lambda>_.
     then_res (destructure args ''collection'') (\<lambda>a.
       Inr (''getIndexesForCollection'', [get_prop a ''collection''])))"
| "before_mongo Mongo_create_index srv args =
     then_res (checkReadOnly srv) (\<lambda>_.
     then_res (only_for (isMongo srv) ''MongoDB'') (\<lambda>_.
     then_res (destructure args ''collection'') (\<lambda>a.
       Inr (''createIndex'', [get_prop a ''collection'', get_prop a ''keys'',
           dflt (get_prop a ''options'') (Obj [])]))))"
| "before_mongo Mongo_get_database_stats srv args =
     then_res (only_for (isMongo srv) ''MongoDB'') (\<lambda>_.
       Inr (''getDatabaseStats'', []))"

primrec before_ldap :: "ldap_tool \<Rightarrow> 'a server \<Rightarrow> jsval \<Rightarrow> thrown + invocation" where
  "before_ldap Ldap_search srv args =
     then_res (only_for (isLDAP srv) ''LDAP'') (\<lambda>_.
     then_res (destructure args ''base'') (\<lambda>a.
       Inr (''search'', [get_prop a ''base'', get_prop a ''filter'', Obj [(''scope'',
           dflt (get_prop a ''scope'') (Str ''sub'')), (''attributes'',
           dflt (get_prop a ''attributes'') (Arr [Str ''*'']))]])))"
| "before_ldap Ldap_authenticate srv args =
     then_res (only_for (isLDAP srv) ''LDAP'') (\<lambda>_.
     then_res (destructure args ''dn'') (\<lambda>a.
       Inr (''authenticate'', [get_prop a ''dn'', get_prop a ''password''])))"
| "before_ldap Ldap_add srv args =
     then_res (checkReadOnly srv) (\<lambda>_.
     then_res (only_for (isLDAP srv) ''LDAP'') (\<lambda>_.
     then_res (destructure args ''dn'') (\<lambda>a.
       Inr (''add'', [get_prop a ''dn'', get_prop a ''attributes'']))))"
| "before_ldap Ldap_modify srv args =
     then_res (checkReadOnly srv) (\<lambda>_.
     then_res (only_for (isLDAP srv) ''LDAP'') (\<lambda>_.
     then_res (destructure args ''dn'') (\<lambda>a.
       Inr (''modify'', [get_prop a ''dn'', get_prop a ''change'']))))"
| "before_ldap Ldap_delete srv args =
     then_res (checkReadOnly srv) (\<lambda>_.
     then_res (only_for (isLDAP srv) ''LDAP'') (\<lambda>_.
     then_res (destructure args ''dn'') (\<lambda>a.
       Inr (''delete'', [get_prop a ''dn'']))))"
| "before_ldap Ldap_compare srv args =
     then_res (only_for (isLDAP srv) ''LDAP'') (\<lambda>_.
     then_res (destructure args ''dn'') (\<lambda>a.
       Inr (''compare'', [get_prop a ''dn'', get_prop a ''attribute'', get_prop a ''value''])))"
| "before_ldap Ldap_search_folder_structure srv args =
     then_res (only_for (isLDAP srv) ''LDAP'') (\<lambda>_.
     then_res (destructure_defaulted args ''base'') (\<lambda>a.
       Inr (''searchFolderStructure'', [dflt (get_prop a ''base'') (Str []),
           dflt (get_prop a ''depth'') (Num 10),
           dflt (get_prop a ''include_entries'') (Bool False)])))"
| "before_ldap Ldap_list_folders srv args =
     then_res (only_for (isLDAP srv) ''LDAP'') (\<lambda>_.
     then_res (destructure_defaulted args ''base'') (\<lambda>a.
       Inr (''listFolders'', [dflt (get_prop a ''base'') (Str [])])))"

primrec before_call :: "tool \<Rightarrow> 'a server \<Rightarrow> jsval \<Rightarrow> thrown + invocation" where
  "before_call (SQL t) = before_sql t"
| "before_call (Redis t) = before_redis t"
| "before_call (Mongo t) = before_mongo t"
| "before_call (LDAP t) = before_ldap t"

text \<open>
  \<open>after_call\<close> is the rest of the case: from the result \<open>r\<close> of the adapter, the
  object handed to \<open>JSON.stringify\<close>.
\<close>

primrec after_sql :: "sql_tool \<Rightarrow> jsval \<Rightarrow> jsval \<Rightarrow> thrown + jsval" where
  "after_sql Query args r =
     Inr r"
| "after_sql Execute_sql args r =
     Inr r"
| "after_sql List_tables args r =
     Inr (Obj [(''tables'', r), (''schema'', or_else (optprop args ''schema'') (Str ''public''))])"
| "after_sql Describe_table args r =
     Inr r"
| "after_sql List_schemas args r =
     Inr (Obj [(''schemas'', r)])"
| "after_sql Explain_query args r =
     Inr r"
| "after_sql Get_indexes args r =
     Inr (Obj [(''table'', get_prop args ''table''), (''schema'',
         dflt (get_prop args ''schema'') (Str ''public'')), (''indexes'', r)])"
| "after_sql Get_foreign_keys args r =
     Inr (Obj [(''table'', get_prop args ''table''), (''schema'',
         dflt (get_prop args ''schema'') (Str ''public'')), (''foreign_keys'', r)])"
| "after_sql Get_table_size args r =
     Inr r"
| "after_sql List_views args r =
     Inr (Obj [(''views'', r), (''schema'', or_else (optprop args ''schema'') (Str ''public''))])"
| "after_sql Describe_view args r =
     Inr r"
| "after_sql Search_tables args r =
     Inr (Obj [(''tables'', r), (''pattern'', get_prop args ''pattern''), (''schema'',
         dflt (get_prop args ''schema'') (Str ''public''))])"
| "after_sql Get_table_stats args r =
     Inr r"

primrec after_redis :: "redis_tool \<Rightarrow> jsval \<Rightarrow> jsval \<Rightarrow> thrown + jsval" where
  "after_redis Redis_get args r =
     Inr (Obj [(''key'', get_prop args ''key''), (''value'', r)])"
| "after_redis Redis_set args r =
     Inr (Obj [(''key'', get_prop args ''key''), (''value'', get_prop args ''value''), (''ttl'',
         or_else (get_prop args ''ttl'') Null), (''status'', Str ''OK'')])"
| "after_redis Redis_del args r =
     Inr (Obj [(''key'', get_prop args ''key''), (''deleted'', r)])"
| "after_redis Redis_keys args r =
     then_res (js_length r) (\<lambda>n.
       Inr (Obj [(''pattern'', get_prop args ''pattern''), (''keys'', r), (''count'', n)]))"
| "after_redis Redis_exists args r =
     Inr (Obj [(''key'', get_prop args ''key''), (''exists'', r)])"
| "after_redis Redis_ttl args r =
     Inr (Obj [(''key'', get_prop args ''key''), (''ttl'', r)])"
| "after_redis Redis_expire args r =
     Inr (Obj [(''key'', get_prop args ''key''), (''seconds'', get_prop args ''seconds''),
         (''result'', r)])"
| "after_redis Redis_type args r =
     Inr (Obj [(''key'', get_prop args ''key''), (''type'', r)])"
| "after_redis Redis_dbsize args r =
     Inr (Obj [(''dbsize'', r)])"
| "after_redis Redis_info args r =
     Inr (Obj [(''section'', or_else (get_prop args ''section'') (Str ''all'')), (''info'', r)])"
| "after_redis Redis_hget args r =
     Inr (Obj [(''key'', get_prop args ''key''), (''field'', get_prop args ''field''), (''value'',
         r)])"
| "after_redis Redis_hset args r =
     Inr (Obj [(''key'', get_prop args ''key''), (''field'', get_prop args ''field''), (''value'',
         get_prop args ''value''), (''result'', r)])"
| "after_redis Redis_hgetall args r =
     Inr (Obj [(''key'', get_prop args ''key''), (''hash'', r)])"
| "after_redis Redis_lrange args r =
     Inr (Obj [(''key'', get_prop args ''key''), (''start'', get_prop args ''start''), (''stop'',
         get_prop args ''stop''), (''list'', r)])"
| "after_redis Redis_smembers args r =
     Inr (Obj [(''key'', get_prop args ''key''), (''members'', r)])"
| "after_redis Redis_zrange args r =
     Inr (Obj [(''key'', get_prop args ''key''), (''start'', get_prop args ''start''), (''stop'',
         get_prop args ''stop''), (''with_scores'', get_prop args ''with_scores''), (''members'',
         r)])"

primrec after_mongo :: "mongo_tool \<Rightarrow> jsval \<Rightarrow> jsval \<Rightarrow> thrown + jsval" where
  "after_mongo Mongo_find args r =
     then_res (js_length r) (\<lambda>n.
       Inr (Obj [(''collection'', get_prop args ''collection''), (''filter'',
           dflt (get_prop args ''filter'') (Obj [])), (''limit'',
           dflt (get_prop args ''limit'') (Num 100)), (''skip'',
           dflt (get_prop args ''skip'') (Num 0)), (''documents'', r), (''count'', n)]))"
| "after_mongo Mongo_find_one args r =
     Inr (Obj [(''collection'', get_prop args ''collection''), (''filter'',
         dflt (get_prop args ''filter'') (Obj [])), (''document'', r)])"
| "after_mongo Mongo_insert_one args r =
     Inr (Obj [(''collection'', get_prop args ''collection''), (''document'',
         get_prop args ''document''), (''inserted_id'', r)])"
| "after_mongo Mongo_insert_many args r =
     then_res (js_length r) (\<lambda>n.
       Inr (Obj [(''collection'', get_prop args ''collection''), (''documents'',
           get_prop args ''documents''), (''inserted_ids'', r), (''count'', n)]))"
| "after_mongo Mongo_update_one args r =
     Inr (Obj [(''collection'', get_prop args ''collection''), (''filter'',
         get_prop args ''filter''), (''update'', get_prop args ''update''), (''modified_count'',
         r)])"
| "after_mongo Mongo_update_many args r =
     Inr (Obj [(''collection'', get_prop args ''collection''), (''filter'',
         get_prop args ''filter''), (''update'', get_prop args ''update''), (''modified_count'',
         r)])"
| "after_mongo Mongo_delete_one args r =
     Inr (Obj [(''collection'', get_prop args ''collection''), (''filter'',
         get_prop args ''filter''), (''deleted_count'', r)])"
| "after_mongo Mongo_delete_many args r =
     Inr (Obj [(''collection'', get_prop args ''collection''), (''filter'',
         get_prop args ''filter''), (''deleted_count'', r)])"
| "after_mongo Mongo_count args r =
     Inr (Obj [(''collection'', get_prop args ''collection''), (''filter'',
         dflt (get_prop args ''filter'') (Obj [])), (''count'', r)])"
| "after_mongo Mongo_aggregate args r =
     then_res (js_length r) (\<lambda>n.
       Inr (Obj [(''collection'', get_prop args ''collection''), (''pipeline'',
           get_prop args ''pipeline''), (''results'', r), (''count'', n)]))"
| "after_mongo Mongo_list_collections args r =
     then_res (js_length r) (\<lambda>n.
       Inr (Obj [(''collections'', r), (''count'', n)]))"
| "after_mongo Mongo_get_collection_stats args r =
     Inr r"
| "after_mongo Mongo_get_indexes args r =
     Inr (Obj [(''collection'', get_prop args ''collection''), (''indexes'', r)])"
| "after_mongo Mongo_create_index args r =
     Inr (Obj [(''collection'', get_prop args ''collection''), (''keys'', get_prop args ''keys''),
         (''options'', dflt (get_prop args ''options'') (Obj [])), (''index_name'', r)])"
| "after_mongo Mongo_get_database_stats args r =
     Inr r"

primrec after_ldap :: "ldap_tool \<Rightarrow> jsval \<Rightarrow> jsval \<Rightarrow> thrown + jsval" where
  "after_ldap Ldap_search args r =
     then_res (js_length r) (\<lambda>n.
       Inr (Obj [(''base'', get_prop args ''base''), (''filter'', get_prop args ''filter''),
           (''scope'', dflt (get_prop args ''scope'') (Str ''sub'')), (''attributes'',
           dflt (get_prop args ''attributes'') (Arr [Str ''*''])), (''entries'', r), (''count'',
           n)]))"
| "after_ldap Ldap_authenticate args r =
     Inr (Obj [(''dn'', get_prop args ''dn''), (''authenticated'', r)])"
| "after_ldap Ldap_add args r =
     Inr (Obj [(''dn'', get_prop args ''dn''), (''attributes'', get_prop args ''attributes''),
         (''status'', Str ''OK'')])"
| "after_ldap Ldap_modify args r =
     Inr (Obj [(''dn'', get_prop args ''dn''), (''change'', get_prop args ''change''),
         (''status'', Str ''OK'')])"
| "after_ldap Ldap_delete args r =
     Inr (Obj [(''dn'', get_prop args ''dn''), (''status'', Str ''OK'')])"
| "after_ldap Ldap_compare args r =
     Inr (Obj [(''dn'', get_prop args ''dn''), (''attribute'', get_prop args ''attribute''),
         (''value'', get_prop args ''value''), (''matched'', r)])"
| "after_ldap Ldap_search_folder_structure args r =
     Inr r"
| "after_ldap Ldap_list_folders args r =
     then_res (js_length r) (\<lambda>n.
       Inr (Obj [(''base'', or_else (dflt (get_prop args ''base'') (Str [])) (Str ''root'')),
           (''folders'', r), (''count'', n)]))"

primrec after_call :: "tool \<Rightarrow> jsval \<Rightarrow> jsval \<Rightarrow> thrown + jsval" where
  "after_call (SQL t) = after_sql t"
| "after_call (Redis t) = after_redis t"
| "after_call (Mongo t) = after_mongo t"
| "after_call (LDAP t) = after_ldap t"

text \<open>
  The call itself: \<open>await this.adapter.method(...)\<close>. The trace records the method and the
  arguments of every adapter call made.
\<close>

definition adapter_call :: "'a server \<Rightarrow> invocation \<Rightarrow> (thrown + jsval) \<times> 'a server" where
  "adapter_call srv call =
     (case adapter srv of
        None \<Rightarrow>
          (Inl (ErrorObj (''Cannot read properties of null (reading '' @ quoted (fst call)
                          @ '')'')), srv)
      | Some a \<Rightarrow>
          (case invoke a (fst call) (snd call) (astate a) of
             (r, s') \<Rightarrow> (r,
                 srv\<lparr>adapter := Some (a\<lparr>astate := s'\<rparr>)\<rparr>)))"

definition run_case ::
  "tool \<Rightarrow> 'a server \<Rightarrow> jsval \<Rightarrow> (thrown + jsval) \<times> 'a server \<times> invocation list" where
  "run_case t srv args =
     (case before_call t srv args of
        Inl e \<Rightarrow> (Inl e, srv, [])
      | Inr call \<Rightarrow>
          (case adapter_call srv call of
             (r, srv') \<Rightarrow> (then_res r (after_call t args), srv', [call])))"

text \<open>The switch with its default case: \<^verbatim>\<open>throw new Error(`Unknown tool: ${name}`);\<close>\<close>

definition switch_name ::
  "'a server \<Rightarrow> string \<Rightarrow> jsval \<Rightarrow> (thrown + jsval) \<times> 'a server \<times> invocation list" where
  "switch_name srv nm args =
     (case tool_of_name nm of
        None \<Rightarrow> (Inl (ErrorObj (''Unknown tool: '' @ nm)), srv, [])
      | Some t \<Rightarrow> run_case t srv args)"

text \<open>
  The handler of a tool call. The check of the adapter stands before the \<open>try\<close>, so its
  error leaves the handler (\<open>Inl\<close>); every error of the switch is caught and answered.
  The result is the outcome, the server object after the call and the trace.
\<close>

definition CallTool ::
  "'a server \<Rightarrow> string \<Rightarrow> jsval \<Rightarrow> (thrown + response) \<times> 'a server \<times> invocation list" where
  "CallTool srv nm args =
     (case adapter srv of
        None \<Rightarrow> (Inl (ErrorObj ''Database adapter not initialized''), srv, [])
      | Some a \<Rightarrow>
          (case switch_name srv nm args of
             (Inr payload, srv', tr) \<Rightarrow> (Inr (success_response payload), srv', tr)
           | (Inl error, srv', tr) \<Rightarrow> (Inr (error_response (errorMessage error)), srv',
               tr)))"

text \<open>A process serves one request after the other on the same server object.\<close>

fun serve :: "'a server \<Rightarrow> (string \<times> jsval) list \<Rightarrow> 'a server" where
  "serve srv [] = srv"
| "serve srv (rq # rqs) = serve (fst (snd (CallTool srv (fst rq) (snd rq)))) rqs"

section \<open>The LDAP adapter\<close>

text \<open>
  The client of the ldapts library is outside the repository: its two methods used here
  are parameters. A method throws or returns, and leaves the client in a new state.
\<close>

record 'c ldap_client_methods =
  client_bind :: "jsval \<Rightarrow> jsval \<Rightarrow> 'c \<Rightarrow> (thrown + unit) \<times> 'c"
  client_unbind :: "'c \<Rightarrow> (thrown + unit) \<times> 'c"

datatype client_call = Bind jsval jsval | Unbind

record 'c LDAPAdapter =
  client :: "'c option"
  url :: string
  bindDN :: string
  bindPassword :: string

definition bind ::
  "'c ldap_client_methods \<Rightarrow> 'c LDAPAdapter \<Rightarrow> jsval \<Rightarrow> jsval
     \<Rightarrow> (thrown + unit) \<times> 'c LDAPAdapter \<times> client_call list" where
  "bind lib this dn password =
     (case client this of
        None \<Rightarrow> (Inl (ErrorObj ''LDAP client not initialized''), this, [])
      | Some c \<Rightarrow>
          (case client_bind lib dn password c of
             (r, c') \<Rightarrow> (r, this\<lparr>client := Some c'\<rparr>, [Bind dn password])))"

definition unbind ::
  "'c ldap_client_methods \<Rightarrow> 'c LDAPAdapter
     \<Rightarrow> (thrown + unit) \<times> 'c LDAPAdapter \<times> client_call list" where
  "unbind lib this =
     (case client this of
        None \<Rightarrow> (Inl (ErrorObj ''LDAP client not initialized''), this, [])
      | Some c \<Rightarrow>
          (case client_unbind lib c of
             (r, c') \<Rightarrow> (r, this\<lparr>client := Some c'\<rparr>, [Unbind])))"

text \<open>The body of the \<open>try\<close> block of \<open>authenticate\<close>.\<close>

definition authenticate_try ::
  "'c ldap_client_methods \<Rightarrow> 'c LDAPAdapter \<Rightarrow> jsval \<Rightarrow> jsval
     \<Rightarrow> (thrown + bool) \<times> 'c LDAPAdapter \<times> client_call list" where
  "authenticate_try lib this dn password =
     (case bind lib this dn password of
        (Inl e, this1, t1) \<Rightarrow> (Inl e, this1, t1)
      | (Inr _, this1, t1) \<Rightarrow>
          (case unbind lib this1 of
             (Inl e, this2, t2) \<Rightarrow> (Inl e, this2, t1 @ t2)
           | (Inr _, this2, t2) \<Rightarrow>
               if bindDN this2 \<noteq> [] \<and> bindPassword this2 \<noteq> []
               then (case bind lib this2 (Str (bindDN this2)) (Str (bindPassword this2)) of
                       (Inl e, this3, t3) \<Rightarrow> (Inl e, this3, t1 @ t2 @ t3)
                     | (Inr _, this3, t3) \<Rightarrow> (Inr True, this3, t1 @ t2 @ t3))
               else (Inr True, this2, t1 @ t2)))"

text \<open>\<open>authenticate\<close>: \<^verbatim>\<open>try { ... return true; } catch (error) { return false; }\<close>\<close>

definition authenticate ::
  "'c ldap_client_methods \<Rightarrow> 'c LDAPAdapter \<Rightarrow> jsval \<Rightarrow> jsval
     \<Rightarrow> (thrown + bool) \<times> 'c LDAPAdapter \<times> client_call list" where
  "authenticate lib this dn password =
     (case authenticate_try lib this dn password of
        (Inl error, this', tr) \<Rightarrow> (Inr False, this', tr)
      | (Inr b, this', tr) \<Rightarrow> (Inr b, this', tr))"

text \<open>The i-th actual argument of a call; a missing one is \<open>undefined\<close>.\<close>

definition actual :: "jsval list \<Rightarrow> nat \<Rightarrow> jsval" where
  "actual as i = (if i < length as then as ! i else Undefined)"

text \<open>
  The adapter object that the dispatcher holds: its method \<open>authenticate\<close> is the one above,
  the other methods are a parameter.
\<close>

definition LDAPAdapter_object ::
  "'c ldap_client_methods
     \<Rightarrow> (string \<Rightarrow> jsval list \<Rightarrow> 'c LDAPAdapter \<Rightarrow> (thrown + jsval) \<times> 'c LDAPAdapter)
     \<Rightarrow> 'c LDAPAdapter \<Rightarrow> ('c LDAPAdapter) adapter" where
  "LDAPAdapter_object lib others this =
     \<lparr>ctor_name = ''LDAPAdapter'',
      invoke = (\<lambda>m as st.
        if m = ''authenticate''
        then (case authenticate lib st (actual as 0) (actual as 1) of
                (Inl e, st', tr) \<Rightarrow> (Inl e, st')
              | (Inr b, st', tr) \<Rightarrow> (Inr (Bool b), st'))
        else others m as st),
      astate = this\<rparr>"

text \<open>
  A directory for tests: the state of the client is the DN it is bound as; a bind
  succeeds with the password \<open>secret\<close> and fails otherwise, leaving the client unbound.
\<close>

definition test_directory :: "(jsval option) ldap_client_methods" where
  "test_directory =
     \<lparr>client_bind = (\<lambda>dn password c.
        if password = Str ''secret'' then (Inr (), Some dn)
        else (Inl (ErrorObj ''Invalid Credentials''), None)),
      client_unbind = (\<lambda>c. (Inr (), None))\<rparr>"

definition service_account :: "(jsval option) LDAPAdapter" where
  "service_account =
     \<lparr>client = Some (Some (Str ''cn=admin'')), url = ''ldap://localhost:389'',
      bindDN = ''cn=admin'', bindPassword = ''secret''\<rparr>"

section \<open>The SQLite adapter\<close>

text \<open>
  The constructor of \<open>SQLiteAdapter\<close> strips the scheme from the connection string and opens
  the file with
  \<^verbatim>\<open>readonly: process.env.READ_ONLY_MODE === "true" || process.env.READ_ONLY_MODE !== "false"\<close>
  A database handle is given by the options it was opened with.
\<close>

record Database =
  filename :: string
  readonly :: bool









section \<open>Vocabulary of the properties\<close>

text \<open>The tools of every backend: the four groups that \<open>ListTools\<close> chooses from.\<close>

definition registered_tools :: "Tool list" where
  "registered_tools = sql_tools @ redis_tools @ mongo_tools @ ldap_tools"

text \<open>
  The write operations, as the section "Read-Only Mode" of README.md lists them under
  "Blocked" for PostgreSQL, Redis, MongoDB and LDAP.
\<close>

definition mutating_operations :: "string list" where
  "mutating_operations =
     [''execute_sql'',
      ''redis_set'', ''redis_del'', ''redis_expire'', ''redis_hset'',
      ''mongo_insert_one'', ''mongo_insert_many'', ''mongo_update_one'', ''mongo_update_many'',
      ''mongo_delete_one'', ''mongo_delete_many'', ''mongo_create_index'',
      ''ldap_add'', ''ldap_modify'', ''ldap_delete'']"

text \<open>The cases of the switch that begin with \<open>this.checkReadOnly()\<close>.\<close>

definition gated_tools :: "tool list" where
  "gated_tools =
     [SQL Execute_sql,
      Redis Redis_set, Redis Redis_del, Redis Redis_expire, Redis Redis_hset,
      Mongo Mongo_insert_one, Mongo Mongo_insert_many, Mongo Mongo_update_one,
      Mongo Mongo_update_many, Mongo Mongo_delete_one, Mongo Mongo_delete_many,
      Mongo Mongo_create_index,
      LDAP Ldap_add, LDAP Ldap_modify, LDAP Ldap_delete]"

text \<open>The adapter method that the case of each tool calls.\<close>

definition adapter_methods :: "(string \<times> string) list" where
  "adapter_methods =
    [(''query'', ''query''), (''execute_sql'', ''execute''), (''list_tables'', ''listTables''),
     (''describe_table'', ''describeTable''), (''list_schemas'', ''listSchemas''),
     (''explain_query'', ''explainQuery''), (''get_indexes'', ''getIndexes''),
     (''get_foreign_keys'', ''getForeignKeys''), (''get_table_size'', ''getTableSize''),
     (''list_views'', ''listViews''), (''describe_view'', ''describeView''),
     (''search_tables'', ''searchTables''), (''get_table_stats'', ''getTableStats''),
     (''redis_get'', ''get''), (''redis_set'', ''set''), (''redis_del'', ''del''),
     (''redis_keys'', ''keys''), (''redis_exists'', ''exists''), (''redis_ttl'', ''ttl''),
     (''redis_expire'', ''expire''), (''redis_type'', ''type''),
     (''redis_dbsize'', ''dbsize''), (''redis_info'', ''info''), (''redis_hget'', ''hget''),
     (''redis_hset'', ''hset''), (''redis_hgetall'', ''hgetall''),
     (''redis_lrange'', ''lrange''), (''redis_smembers'', ''smembers''),
     (''redis_zrange'', ''zrange''), (''mongo_find'', ''find''),
     (''mongo_find_one'', ''findOne''), (''mongo_insert_one'', ''insertOne''),
     (''mongo_insert_many'', ''insertMany''), (''mongo_update_one'', ''updateOne''),
     (''mongo_update_many'', ''updateMany''), (''mongo_delete_one'', ''deleteOne''),
     (''mongo_delete_many'', ''deleteMany''), (''mongo_count'', ''count''),
     (''mongo_aggregate'', ''aggregate''), (''mongo_list_collections'', ''listCollections''),
     (''mongo_get_collection_stats'', ''getCollectionStats''),
     (''mongo_get_indexes'', ''getIndexesForCollection''),
     (''mongo_create_index'', ''createIndex''),
     (''mongo_get_database_stats'', ''getDatabaseStats''), (''ldap_search'', ''search''),
     (''ldap_authenticate'', ''authenticate''), (''ldap_add'', ''add''),
     (''ldap_modify'', ''modify''), (''ldap_delete'', ''delete''),
     (''ldap_compare'', ''compare''),
     (''ldap_search_folder_structure'', ''searchFolderStructure''),
     (''ldap_list_folders'', ''listFolders'')]"

text \<open>
  An adapter for tests: every method returns \<open>null\<close> and is recorded, with its arguments,
  in the state of the adapter.
\<close>

definition recording_adapter :: "string \<Rightarrow> (invocation list) adapter" where
  "recording_adapter cn =
     \<lparr>ctor_name = cn, invoke = (\<lambda>m as log. (Inr Null, log @ [(m, as)])),
         astate = []\<rparr>"

text \<open>An adapter whose every method throws an \<open>Error\<close> with the given message.\<close>

definition failing_adapter :: "string \<Rightarrow> string \<Rightarrow> unit adapter" where
  "failing_adapter cn msg =
     \<lparr>ctor_name = cn, invoke = (\<lambda>m as s. (Inl (ErrorObj msg), s)),
         astate = ()\<rparr>"

text \<open>What a request never changes: the fields that the constructor sets once.\<close>

definition same_configuration :: "'a server \<Rightarrow> 'a server \<Rightarrow> bool" where
  "same_configuration srv srv' \<longleftrightarrow>
     isRedis srv' = isRedis srv \<and> isMongo srv' = isMongo srv \<and> isLDAP srv' = isLDAP srv
     \<and> readOnly srv' = readOnly srv \<and> (adapter srv' = None \<longleftrightarrow> adapter srv = None)"

text \<open>
  When a tool applies to the server's adapter: a backend-specific tool when the flag that
  its case tests is set (\<open>only_available_for\<close> is the backend its error names); a generic
  SQL tool, whose case tests nothing, when \<open>ListTools\<close> offers the SQL group.
\<close>

primrec applicable :: "tool \<Rightarrow> 'a server \<Rightarrow> bool" where
  "applicable (SQL t) srv = (\<not> isRedis srv \<and> \<not> isMongo srv \<and> \<not> isLDAP srv)"
| "applicable (Redis t) srv = isRedis srv"
| "applicable (Mongo t) srv = isMongo srv"
| "applicable (LDAP t) srv = isLDAP srv"

primrec only_available_for :: "tool \<Rightarrow> string option" where
  "only_available_for (SQL t) = None"
| "only_available_for (Redis t) = Some ''Redis''"
| "only_available_for (Mongo t) = Some ''MongoDB''"
| "only_available_for (LDAP t) = Some ''LDAP''"

text \<open>
  Arguments are well-formed for a listed tool when they are an object that has every
  required property and gives every declared property, if present, a value of its
  declared type.
\<close>

fun has_type :: "string \<Rightarrow> jsval \<Rightarrow> bool" where
  "has_type ty (Str s) = (ty = ''string'')"
| "has_type ty (Num n) = (ty = ''number'')"
| "has_type ty (Bool b) = (ty = ''boolean'')"
| "has_type ty (Arr xs) = (ty = ''array'')"
| "has_type ty (Obj kvs) = (ty = ''object'')"
| "has_type ty v = False"

definition conforms :: "Tool \<Rightarrow> jsval \<Rightarrow> bool" where
  "conforms d args \<longleftrightarrow>
     (case args of
        Obj kvs \<Rightarrow>
          list_all (\<lambda>k. map_of kvs k \<noteq> None) (required d)
          \<and> list_all (\<lambda>(k,
              ty). case map_of kvs k of None \<Rightarrow> True | Some v \<Rightarrow> has_type ty v)
                (properties d)
      | _ \<Rightarrow> False)"

section \<open>Properties\<close>

text \<open>
  C1 (as stated, refuted): the claim resolves the upper-case token \<open>FALSE\<close> to read-write.
  The comparison of the constructor is exact, so \<open>FALSE\<close> leaves the server read-only.
\<close>

theorem C1_uppercase_FALSE_is_ReadOnly:
  "policy_mode (Some ''FALSE'') = ReadOnly"
  by (simp add: policy_mode_def resolve_readOnly_def)

text \<open>
  C1 (amended): the mode is read-write exactly for the two tokens \<open>false\<close> and \<open>0\<close>, compared
  case-sensitively; absence, the empty string, \<open>true\<close>, \<open>yes\<close>, \<open>1\<close> and also \<open>FALSE\<close>
  resolve to read-only.
\<close>

theorem C1_policy_mode_exact_tokens:
  "(policy_mode env = ReadWrite \<longleftrightarrow> env = Some ''false'' \<or> env = Some ''0'')
   \<and> (policy_mode env = ReadOnly \<longleftrightarrow> env \<noteq> Some ''false'' \<and> env \<noteq> Some ''0'')
   \<and> policy_mode (Some ''false'') = ReadWrite
   \<and> policy_mode (Some ''0'') = ReadWrite
   \<and> policy_mode None = ReadOnly
   \<and> policy_mode (Some '''') = ReadOnly
   \<and> policy_mode (Some ''true'') = ReadOnly
   \<and> policy_mode (Some ''yes'') = ReadOnly
   \<and> policy_mode (Some ''1'') = ReadOnly
   \<and> policy_mode (Some ''FALSE'') = ReadOnly"
  by (simp add: policy_mode_def resolve_readOnly_def)

subsection \<open>The switch and the catalog\<close>

lemma case_labels_names: "map fst case_labels = map name registered_tools"
  by (simp add: case_labels_def registered_tools_def sql_tools_def redis_tools_def
      mongo_tools_def ldap_tools_def)

lemma tool_of_name_None:
  "tool_of_name nm = None \<longleftrightarrow> nm \<notin> set (map name registered_tools)"
  unfolding tool_of_name_def map_of_eq_None_iff case_labels_names [symmetric] by simp

lemma tool_of_name_label:
  "tool_of_name ''query'' = Some (SQL Query)"
  "tool_of_name ''execute_sql'' = Some (SQL Execute_sql)"
  "tool_of_name ''list_tables'' = Some (SQL List_tables)"
  "tool_of_name ''describe_table'' = Some (SQL Describe_table)"
  "tool_of_name ''list_schemas'' = Some (SQL List_schemas)"
  "tool_of_name ''explain_query'' = Some (SQL Explain_query)"
  "tool_of_name ''get_indexes'' = Some (SQL Get_indexes)"
  "tool_of_name ''get_foreign_keys'' = Some (SQL Get_foreign_keys)"
  "tool_of_name ''get_table_size'' = Some (SQL Get_table_size)"
  "tool_of_name ''list_views'' = Some (SQL List_views)"
  "tool_of_name ''describe_view'' = Some (SQL Describe_view)"
  "tool_of_name ''search_tables'' = Some (SQL Search_tables)"
  "tool_of_name ''get_table_stats'' = Some (SQL Get_table_stats)"
  "tool_of_name ''redis_get'' = Some (Redis Redis_get)"
  "tool_of_name ''redis_set'' = Some (Redis Redis_set)"
  "tool_of_name ''redis_del'' = Some (Redis Redis_del)"
  "tool_of_name ''redis_keys'' = Some (Redis Redis_keys)"
  "tool_of_name ''redis_exists'' = Some (Redis Redis_exists)"
  "tool_of_name ''redis_ttl'' = Some (Redis Redis_ttl)"
  "tool_of_name ''redis_expire'' = Some (Redis Redis_expire)"
  "tool_of_name ''redis_type'' = Some (Redis Redis_type)"
  "tool_of_name ''redis_dbsize'' = Some (Redis Redis_dbsize)"
  "tool_of_name ''redis_info'' = Some (Redis Redis_info)"
  "tool_of_name ''redis_hget'' = Some (Redis Redis_hget)"
  "tool_of_name ''redis_hset'' = Some (Redis Redis_hset)"
  "tool_of_name ''redis_hgetall'' = Some (Redis Redis_hgetall)"
  "tool_of_name ''redis_lrange'' = Some (Redis Redis_lrange)"
  "tool_of_name ''redis_smembers'' = Some (Redis Redis_smembers)"
  "tool_of_name ''redis_zrange'' = Some (Redis Redis_zrange)"
  "tool_of_name ''mongo_find'' = Some (Mongo Mongo_find)"
  "tool_of_name ''mongo_find_one'' = Some (Mongo Mongo_find_one)"
  "tool_of_name ''mongo_insert_one'' = Some (Mongo Mongo_insert_one)"
  "tool_of_name ''mongo_insert_many'' = Some (Mongo Mongo_insert_many)"
  "tool_of_name ''mongo_update_one'' = Some (Mongo Mongo_update_one)"
  "tool_of_name ''mongo_update_many'' = Some (Mongo Mongo_update_many)"
  "tool_of_name ''mongo_delete_one'' = Some (Mongo Mongo_delete_one)"
  "tool_of_name ''mongo_delete_many'' = Some (Mongo Mongo_delete_many)"
  "tool_of_name ''mongo_count'' = Some (Mongo Mongo_count)"
  "tool_of_name ''mongo_aggregate'' = Some (Mongo Mongo_aggregate)"
  "tool_of_name ''mongo_list_collections'' = Some (Mongo Mongo_list_collections)"
  "tool_of_name ''mongo_get_collection_stats'' = Some (Mongo Mongo_get_collection_stats)"
  "tool_of_name ''mongo_get_indexes'' = Some (Mongo Mongo_get_indexes)"
  "tool_of_name ''mongo_create_index'' = Some (Mongo Mongo_create_index)"
  "tool_of_name ''mongo_get_database_stats'' = Some (Mongo Mongo_get_database_stats)"
  "tool_of_name ''ldap_search'' = Some (LDAP Ldap_search)"
  "tool_of_name ''ldap_authenticate'' = Some (LDAP Ldap_authenticate)"
  "tool_of_name ''ldap_add'' = Some (LDAP Ldap_add)"
  "tool_of_name ''ldap_modify'' = Some (LDAP Ldap_modify)"
  "tool_of_name ''ldap_delete'' = Some (LDAP Ldap_delete)"
  "tool_of_name ''ldap_compare'' = Some (LDAP Ldap_compare)"
  "tool_of_name ''ldap_search_folder_structure'' = Some (LDAP Ldap_search_folder_structure)"
  "tool_of_name ''ldap_list_folders'' = Some (LDAP Ldap_list_folders)"
  by (simp_all add: tool_of_name_def case_labels_def)

lemma CallTool_thrown:
  assumes "adapter srv = Some a" and "switch_name srv nm args = (Inl e, srv', tr)"
  shows "CallTool srv nm args = (Inr (error_response (errorMessage e)), srv', tr)"
  using assms by (simp add: CallTool_def)

lemma run_case_thrown:
  assumes "before_call t srv args = Inl e"
  shows "run_case t srv args = (Inl e, srv, [])"
  using assms by (simp add: run_case_def)

lemma run_case_invoke:
  assumes "adapter srv = Some b" and "before_call t srv args = Inr (m, as)"
  shows "run_case t srv args =
           (then_res (fst (invoke b m as (astate b))) (after_call t args),
            srv\<lparr>adapter := Some (b\<lparr>astate := snd (invoke b m as (astate b))\<rparr>)\<rparr>,
            [(m, as)])"
  using assms by (simp add: run_case_def adapter_call_def split: prod.splits)

lemma CallTool_of_run_case:
  assumes "adapter srv = Some b" and "tool_of_name nm = Some t"
    and "run_case t srv args = (r, srv', tr)"
  shows "CallTool srv nm args =
           (Inr (case r of
                   Inl e \<Rightarrow>
                     \<lparr>content = [\<lparr>ctype = ''text'',
                         ctext = Literal (''Error: '' @ (case e of ErrorObj m \<Rightarrow> m
                                                         | NonError s \<Rightarrow> s))\<rparr>],
                      isError = Some True\<rparr>
                 | Inr p \<Rightarrow>
                     \<lparr>content = [\<lparr>ctype = ''text'', ctext = JSON_stringify p\<rparr>],
                      isError = None\<rparr>),
            srv', tr)"
proof (cases r)
  case (Inl e)
  with assms show ?thesis
    by (cases e) (simp_all add: CallTool_def switch_name_def error_response_def)
next
  case (Inr p)
  with assms show ?thesis
    by (simp add: CallTool_def switch_name_def success_response_def)
qed

lemma CallTool_invoke:
  assumes "adapter srv = Some b" and "tool_of_name nm = Some t"
    and "before_call t srv args = Inr (m, as)"
  shows "snd (snd (CallTool srv nm args)) = [(m, as)]
       \<and> map_option astate (adapter (fst (snd (CallTool srv nm args))))
           = Some (snd (invoke b m as (astate b)))"
  using CallTool_of_run_case [OF assms(1,2) run_case_invoke [OF assms(1,3)]] by simp

lemma adapter_methods_label:
  "map_of adapter_methods ''query'' = Some ''query''"
  "map_of adapter_methods ''execute_sql'' = Some ''execute''"
  "map_of adapter_methods ''list_tables'' = Some ''listTables''"
  "map_of adapter_methods ''describe_table'' = Some ''describeTable''"
  "map_of adapter_methods ''list_schemas'' = Some ''listSchemas''"
  "map_of adapter_methods ''explain_query'' = Some ''explainQuery''"
  "map_of adapter_methods ''get_indexes'' = Some ''getIndexes''"
  "map_of adapter_methods ''get_foreign_keys'' = Some ''getForeignKeys''"
  "map_of adapter_methods ''get_table_size'' = Some ''getTableSize''"
  "map_of adapter_methods ''list_views'' = Some ''listViews''"
  "map_of adapter_methods ''describe_view'' = Some ''describeView''"
  "map_of adapter_methods ''search_tables'' = Some ''searchTables''"
  "map_of adapter_methods ''get_table_stats'' = Some ''getTableStats''"
  "map_of adapter_methods ''redis_get'' = Some ''get''"
  "map_of adapter_methods ''redis_set'' = Some ''set''"
  "map_of adapter_methods ''redis_del'' = Some ''del''"
  "map_of adapter_methods ''redis_keys'' = Some ''keys''"
  "map_of adapter_methods ''redis_exists'' = Some ''exists''"
  "map_of adapter_methods ''redis_ttl'' = Some ''ttl''"
  "map_of adapter_methods ''redis_expire'' = Some ''expire''"
  "map_of adapter_methods ''redis_type'' = Some ''type''"
  "map_of adapter_methods ''redis_dbsize'' = Some ''dbsize''"
  "map_of adapter_methods ''redis_info'' = Some ''info''"
  "map_of adapter_methods ''redis_hget'' = Some ''hget''"
  "map_of adapter_methods ''redis_hset'' = Some ''hset''"
  "map_of adapter_methods ''redis_hgetall'' = Some ''hgetall''"
  "map_of adapter_methods ''redis_lrange'' = Some ''lrange''"
  "map_of adapter_methods ''redis_smembers'' = Some ''smembers''"
  "map_of adapter_methods ''redis_zrange'' = Some ''zrange''"
  "map_of adapter_methods ''mongo_find'' = Some ''find''"
  "map_of adapter_methods ''mongo_find_one'' = Some ''findOne''"
  "map_of adapter_methods ''mongo_insert_one'' = Some ''insertOne''"
  "map_of adapter_methods ''mongo_insert_many'' = Some ''insertMany''"
  "map_of adapter_methods ''mongo_update_one'' = Some ''updateOne''"
  "map_of adapter_methods ''mongo_update_many'' = Some ''updateMany''"
  "map_of adapter_methods ''mongo_delete_one'' = Some ''deleteOne''"
  "map_of adapter_methods ''mongo_delete_many'' = Some ''deleteMany''"
  "map_of adapter_methods ''mongo_count'' = Some ''count''"
  "map_of adapter_methods ''mongo_aggregate'' = Some ''aggregate''"
  "map_of adapter_methods ''mongo_list_collections'' = Some ''listCollections''"
  "map_of adapter_methods ''mongo_get_collection_stats'' = Some ''getCollectionStats''"
  "map_of adapter_methods ''mongo_get_indexes'' = Some ''getIndexesForCollection''"
  "map_of adapter_methods ''mongo_create_index'' = Some ''createIndex''"
  "map_of adapter_methods ''mongo_get_database_stats'' = Some ''getDatabaseStats''"
  "map_of adapter_methods ''ldap_search'' = Some ''search''"
  "map_of adapter_methods ''ldap_authenticate'' = Some ''authenticate''"
  "map_of adapter_methods ''ldap_add'' = Some ''add''"
  "map_of adapter_methods ''ldap_modify'' = Some ''modify''"
  "map_of adapter_methods ''ldap_delete'' = Some ''delete''"
  "map_of adapter_methods ''ldap_compare'' = Some ''compare''"
  "map_of adapter_methods ''ldap_search_folder_structure'' = Some ''searchFolderStructure''"
  "map_of adapter_methods ''ldap_list_folders'' = Some ''listFolders''"
  by (simp_all add: adapter_methods_def)

subsection \<open>The read-only gate\<close>

lemma mutating_operations_labels:
  "map tool_of_name mutating_operations = map Some gated_tools"
  by (simp add: mutating_operations_def gated_tools_def tool_of_name_label)

lemma gated_tools_checkReadOnly:
  assumes "t \<in> set gated_tools" and "readOnly srv"
  shows "before_call t srv args =
           Inl (ErrorObj ''Server is running in read-only mode. Write operations are disabled.'')"
  using assms by (auto simp add: gated_tools_def checkReadOnly_def)

lemma mutating_tool_of_name:
  assumes "nm \<in> set mutating_operations"
  shows "\<exists>t. tool_of_name nm = Some t \<and> t \<in> set gated_tools"
proof -
  from assms have "tool_of_name nm \<in> set (map tool_of_name mutating_operations)" by simp
  then show ?thesis unfolding mutating_operations_labels by auto
qed

lemma gated_iff_mutating:
  assumes "tool_of_name nm = Some t"
  shows "t \<in> set gated_tools \<longleftrightarrow> nm \<in> set mutating_operations"
proof -
  from assms have "(nm, t) \<in> set case_labels"
    unfolding tool_of_name_def by (rule map_of_SomeD)
  then show ?thesis
    by (auto simp add: case_labels_def gated_tools_def mutating_operations_def)
qed

text \<open>
  C2: under read-only mode every write operation of the README's list is answered with the
  fixed read-only message as an error response; the server object is unchanged and the
  trace of adapter calls is empty, whatever the arguments and whatever the active adapter.
\<close>

theorem C2_mutating_blocked_when_read_only:
  assumes "adapter srv = Some a" and "readOnly srv" and "nm \<in> set mutating_operations"
  shows "CallTool srv nm args =
           (Inr (error_response
              ''Server is running in read-only mode. Write operations are disabled.''),
            srv, [])"
proof -
  from assms(3) obtain t where t: "tool_of_name nm = Some t"
    and b: "before_call t srv args =
      Inl (ErrorObj ''Server is running in read-only mode. Write operations are disabled.'')"
    using mutating_tool_of_name gated_tools_checkReadOnly [OF _ assms(2)] by blast
  have "switch_name srv nm args =
      (Inl (ErrorObj ''Server is running in read-only mode. Write operations are disabled.''),
       srv, [])"
    by (simp add: switch_name_def t run_case_thrown [OF b])
  from CallTool_thrown [OF assms(1) this] show ?thesis by simp
qed

theorem C2_redis_set_witness:
  "adapter (DatabaseMCPServer (recording_adapter ''RedisAdapter'') None)
     = Some (recording_adapter ''RedisAdapter'')
   \<and> readOnly (DatabaseMCPServer (recording_adapter ''RedisAdapter'') None)
   \<and> ''redis_set'' \<in> set mutating_operations
   \<and> CallTool (DatabaseMCPServer (recording_adapter ''RedisAdapter'') None) ''redis_set''
        (Obj [(''key'', Str ''k''), (''value'', Str ''v'')])
      = (Inr (error_response
           ''Server is running in read-only mode. Write operations are disabled.''),
         DatabaseMCPServer (recording_adapter ''RedisAdapter'') None, [])"
proof -
  have h1: "adapter (DatabaseMCPServer (recording_adapter ''RedisAdapter'') None)
      = Some (recording_adapter ''RedisAdapter'')"
    by (simp add: DatabaseMCPServer_def)
  have h2: "readOnly (DatabaseMCPServer (recording_adapter ''RedisAdapter'') None)"
    by (simp add: DatabaseMCPServer_def resolve_readOnly_def)
  have h3: "''redis_set'' \<in> set mutating_operations"
    by (simp add: mutating_operations_def)
  from C2_mutating_blocked_when_read_only [OF h1 h2 h3] h1 h2 h3 show ?thesis by blast
qed

subsection \<open>The default case and the SELECT check\<close>

text \<open>
  C5: a name that is the name of no registered tool of any backend reaches the default
  case: the response is the error response for "Unknown tool: name", the server object is
  unchanged and no adapter method is called.
\<close>

theorem C5_unknown_operation:
  assumes "adapter srv = Some a" and "nm \<notin> set (map name registered_tools)"
  shows "CallTool srv nm args = (Inr (error_response (''Unknown tool: '' @ nm)), srv, [])"
proof -
  have "tool_of_name nm = None"
    using assms(2) by (simp only: tool_of_name_None not_False_eq_True)
  then have "switch_name srv nm args = (Inl (ErrorObj (''Unknown tool: '' @ nm)), srv, [])"
    by (simp add: switch_name_def)
  from CallTool_thrown [OF assms(1) this] show ?thesis by simp
qed

theorem C5_drop_table_witness:
  "adapter (DatabaseMCPServer (recording_adapter ''PostgresAdapter'') None)
     = Some (recording_adapter ''PostgresAdapter'')
   \<and> ''drop_table'' \<notin> set (map name registered_tools)
   \<and> CallTool (DatabaseMCPServer (recording_adapter ''PostgresAdapter'') None) ''drop_table''
        (Obj [(''table'', Str ''t'')])
      = (Inr (error_response ''Unknown tool: drop_table''),
         DatabaseMCPServer (recording_adapter ''PostgresAdapter'') None, [])"
proof -
  have h1: "adapter (DatabaseMCPServer (recording_adapter ''PostgresAdapter'') None)
      = Some (recording_adapter ''PostgresAdapter'')"
    by (simp add: DatabaseMCPServer_def)
  have h2: "''drop_table'' \<notin> set (map name registered_tools)"
    by (simp add: registered_tools_def sql_tools_def redis_tools_def mongo_tools_def
        ldap_tools_def)
  from C5_unknown_operation [OF h1 h2, of "Obj [(''table'', Str ''t'')]"] h1 h2
  show ?thesis by simp
qed




subsection \<open>What requests leave unchanged\<close>

lemma adapter_call_configuration: "same_configuration srv (snd (adapter_call srv c))"
  by (simp add: adapter_call_def same_configuration_def split: option.splits prod.splits)

lemma run_case_configuration: "same_configuration srv (fst (snd (run_case t srv args)))"
proof (cases "before_call t srv args")
  case (Inl e)
  then show ?thesis by (simp add: run_case_def same_configuration_def)
next
  case (Inr c)
  then show ?thesis
    using adapter_call_configuration [of srv c]
    by (cases "adapter_call srv c") (simp add: run_case_def)
qed

lemma switch_name_configuration: "same_configuration srv (fst (snd (switch_name srv nm args)))"
proof (cases "tool_of_name nm")
  case None
  then show ?thesis by (simp add: switch_name_def same_configuration_def)
next
  case (Some t)
  then show ?thesis using run_case_configuration [of srv t args] by (simp add: switch_name_def)
qed

lemma CallTool_configuration: "same_configuration srv (fst (snd (CallTool srv nm args)))"
proof (cases "adapter srv")
  case None
  then show ?thesis by (simp add: CallTool_def same_configuration_def)
next
  case (Some a)
  obtain r srv' tr where s: "switch_name srv nm args = (r, srv', tr)"
    by (cases "switch_name srv nm args") auto
  with switch_name_configuration [of srv nm args] have "same_configuration srv srv'" by simp
  with Some s show ?thesis by (cases r) (simp_all add: CallTool_def)
qed

lemma same_configuration_trans:
  "same_configuration a b \<Longrightarrow> same_configuration b c \<Longrightarrow> same_configuration a c"
  by (simp add: same_configuration_def)

lemma serve_configuration: "same_configuration srv (serve srv rqs)"
proof (induction rqs arbitrary: srv)
  case Nil
  show ?case by (simp add: same_configuration_def)
next
  case (Cons rq rqs)
  show ?case
    using same_configuration_trans [OF CallTool_configuration Cons.IH] by simp
qed

lemma served_adapter:
  assumes "srv = serve (DatabaseMCPServer a env) rqs"
  shows "\<exists>b. adapter srv = Some b"
  using serve_configuration [of "DatabaseMCPServer a env" rqs] assms
  by (simp add: same_configuration_def DatabaseMCPServer_def)

lemma ListTools_configuration:
  "same_configuration srv srv' \<Longrightarrow> ListTools srv' = ListTools srv"
  by (simp add: same_configuration_def ListTools_def)

subsection \<open>The catch block\<close>

text \<open>
  C6: on every server that the constructor built, after any sequence of requests, a tool call
  returns a response and nothing is thrown out of the handler (the adapter check before the
  \<open>try\<close> cannot fail, the adapter being set). Whatever throws inside the \<open>try\<close> is answered
  with the text "Error: " followed by the message of the error (for a thrown value that is
  not an \<open>Error\<close>, by what \<open>String\<close> makes of it) and with \<open>isError\<close> true: the default case
  for an unknown name; the part of a case before the adapter call, that is the read-only
  gate, the backend guard, the destructuring of the arguments and the SELECT check; the
  adapter method; and the part after it, which builds the payload. When nothing throws the
  response carries the payload and has no \<open>isError\<close>.
\<close>

theorem C6_errors_are_answered:
  assumes "srv = serve (DatabaseMCPServer a env) rqs"
  shows "(\<exists>resp. fst (CallTool srv nm args) = Inr resp)
    \<and> (tool_of_name nm = None \<longrightarrow>
         fst (CallTool srv nm args) =
           Inr \<lparr>content = [\<lparr>ctype = ''text'',
                    ctext = Literal (''Error: Unknown tool: '' @ nm)\<rparr>],
                isError = Some True\<rparr>)
    \<and> (\<forall>t e. tool_of_name nm = Some t \<longrightarrow> before_call t srv args = Inl e \<longrightarrow>
         fst (CallTool srv nm args) =
           Inr \<lparr>content = [\<lparr>ctype = ''text'',
                    ctext = Literal (''Error: '' @ (case e of ErrorObj m \<Rightarrow> m
                                                    | NonError s \<Rightarrow> s))\<rparr>],
                isError = Some True\<rparr>)
    \<and> (\<forall>t b m as e. tool_of_name nm = Some t \<longrightarrow> before_call t srv args = Inr (m, as) \<longrightarrow>
         adapter srv = Some b \<longrightarrow> fst (invoke b m as (astate b)) = Inl e \<longrightarrow>
         fst (CallTool srv nm args) =
           Inr \<lparr>content = [\<lparr>ctype = ''text'',
                    ctext = Literal (''Error: '' @ (case e of ErrorObj m \<Rightarrow> m
                                                    | NonError s \<Rightarrow> s))\<rparr>],
                isError = Some True\<rparr>)
    \<and> (\<forall>t b m as r e. tool_of_name nm = Some t \<longrightarrow> before_call t srv args = Inr (m, as) \<longrightarrow>
         adapter srv = Some b \<longrightarrow> fst (invoke b m as (astate b)) = Inr r \<longrightarrow>
         after_call t args r = Inl e \<longrightarrow>
         fst (CallTool srv nm args) =
           Inr \<lparr>content = [\<lparr>ctype = ''text'',
                    ctext = Literal (''Error: '' @ (case e of ErrorObj m \<Rightarrow> m
                                                    | NonError s \<Rightarrow> s))\<rparr>],
                isError = Some True\<rparr>)
    \<and> (\<forall>t b m as r p. tool_of_name nm = Some t \<longrightarrow> before_call t srv args = Inr (m, as) \<longrightarrow>
         adapter srv = Some b \<longrightarrow> fst (invoke b m as (astate b)) = Inr r \<longrightarrow>
         after_call t args r = Inr p \<longrightarrow>
         fst (CallTool srv nm args) =
           Inr \<lparr>content = [\<lparr>ctype = ''text'', ctext = JSON_stringify p\<rparr>],
                isError = None\<rparr>)"
proof (intro conjI allI impI)
  from served_adapter [OF assms] obtain b0 where b0: "adapter srv = Some b0" by blast
  show "\<exists>resp. fst (CallTool srv nm args) = Inr resp"
  proof (cases "tool_of_name nm")
    case None
    then have "switch_name srv nm args = (Inl (ErrorObj (''Unknown tool: '' @ nm)), srv, [])"
      by (simp add: switch_name_def)
    from CallTool_thrown [OF b0 this] show ?thesis by simp
  next
    case (Some t)
    obtain r srv' tr where "run_case t srv args = (r, srv', tr)"
      by (cases "run_case t srv args") auto
    from CallTool_of_run_case [OF b0 Some this] show ?thesis by simp
  qed
next
  from served_adapter [OF assms] obtain b0 where b0: "adapter srv = Some b0" by blast
  assume "tool_of_name nm = None"
  then have "switch_name srv nm args = (Inl (ErrorObj (''Unknown tool: '' @ nm)), srv, [])"
    by (simp add: switch_name_def)
  from CallTool_thrown [OF b0 this]
  show "fst (CallTool srv nm args) =
      Inr \<lparr>content = [\<lparr>ctype = ''text'', ctext = Literal (''Error: Unknown tool: '' @ nm)\<rparr>],
           isError = Some True\<rparr>"
    by (simp add: error_response_def)
next
  from served_adapter [OF assms] obtain b0 where b0: "adapter srv = Some b0" by blast
  fix t e
  assume t: "tool_of_name nm = Some t" and "before_call t srv args = Inl e"
  from CallTool_of_run_case [OF b0 t run_case_thrown [OF this(2)]]
  show "fst (CallTool srv nm args) =
      Inr \<lparr>content = [\<lparr>ctype = ''text'',
               ctext = Literal (''Error: '' @ (case e of ErrorObj m \<Rightarrow> m | NonError s \<Rightarrow> s))\<rparr>],
           isError = Some True\<rparr>"
    by simp
next
  fix t b m as e
  assume t: "tool_of_name nm = Some t" and c: "before_call t srv args = Inr (m, as)"
    and b: "adapter srv = Some b" and "fst (invoke b m as (astate b)) = Inl e"
  with CallTool_of_run_case [OF b t run_case_invoke [OF b c]]
  show "fst (CallTool srv nm args) =
      Inr \<lparr>content = [\<lparr>ctype = ''text'',
               ctext = Literal (''Error: '' @ (case e of ErrorObj m \<Rightarrow> m | NonError s \<Rightarrow> s))\<rparr>],
           isError = Some True\<rparr>"
    by simp
next
  fix t b m as r e
  assume t: "tool_of_name nm = Some t" and c: "before_call t srv args = Inr (m, as)"
    and b: "adapter srv = Some b" and "fst (invoke b m as (astate b)) = Inr r"
    and "after_call t args r = Inl e"
  with CallTool_of_run_case [OF b t run_case_invoke [OF b c]]
  show "fst (CallTool srv nm args) =
      Inr \<lparr>content = [\<lparr>ctype = ''text'',
               ctext = Literal (''Error: '' @ (case e of ErrorObj m \<Rightarrow> m | NonError s \<Rightarrow> s))\<rparr>],
           isError = Some True\<rparr>"
    by simp
next
  fix t b m as r p
  assume t: "tool_of_name nm = Some t" and c: "before_call t srv args = Inr (m, as)"
    and b: "adapter srv = Some b" and "fst (invoke b m as (astate b)) = Inr r"
    and "after_call t args r = Inr p"
  with CallTool_of_run_case [OF b t run_case_invoke [OF b c]]
  show "fst (CallTool srv nm args) =
      Inr \<lparr>content = [\<lparr>ctype = ''text'', ctext = JSON_stringify p\<rparr>], isError = None\<rparr>"
    by simp
qed

text \<open>
  C6, witness: one request for each place where an error arises. An unknown name; a write
  operation on a read-only server; a Redis tool on a PostgreSQL server; \<open>describe_table\<close>
  without arguments; \<open>query\<close> with a DROP statement; an adapter that refuses every call with
  "connection refused"; and \<open>redis_keys\<close> on an adapter that returns \<open>null\<close>, whose \<open>length\<close> the
  case then reads.
\<close>

theorem C6_every_error_source_witness:
  "fst (CallTool (DatabaseMCPServer (recording_adapter ''PostgresAdapter'') None)
         ''drop_table'' (Obj []))
     = Inr \<lparr>content = [\<lparr>ctype = ''text'', ctext = Literal ''Error: Unknown tool: drop_table''\<rparr>],
            isError = Some True\<rparr>
   \<and> fst (CallTool (DatabaseMCPServer (recording_adapter ''PostgresAdapter'') None)
         ''execute_sql'' (Obj [(''sql'', Str ''DELETE FROM t'')]))
     = Inr \<lparr>content = [\<lparr>ctype = ''text'', ctext = Literal
              ''Error: Server is running in read-only mode. Write operations are disabled.''\<rparr>],
            isError = Some True\<rparr>
   \<and> fst (CallTool (DatabaseMCPServer (recording_adapter ''PostgresAdapter'') (Some ''false''))
         ''redis_get'' (Obj [(''key'', Str ''k'')]))
     = Inr \<lparr>content = [\<lparr>ctype = ''text'',
              ctext = Literal ''Error: This tool is only available for Redis''\<rparr>],
            isError = Some True\<rparr>
   \<and> fst (CallTool (DatabaseMCPServer (recording_adapter ''PostgresAdapter'') None)
         ''describe_table'' Undefined)
     = Inr \<lparr>content = [\<lparr>ctype = ''text'',
              ctext = Literal (''Error: Cannot destructure property '' @ quoted ''table''
                               @ '' of '' @ quoted ''args'' @ '' as it is undefined.'')\<rparr>],
            isError = Some True\<rparr>
   \<and> fst (CallTool (DatabaseMCPServer (recording_adapter ''PostgresAdapter'') None)
         ''query'' (Obj [(''sql'', Str ''DROP TABLE t'')]))
     = Inr \<lparr>content = [\<lparr>ctype = ''text'',
              ctext = Literal ''Error: Query tool only supports SELECT statements''\<rparr>],
            isError = Some True\<rparr>
   \<and> fst (CallTool (DatabaseMCPServer (failing_adapter ''PostgresAdapter'' ''connection refused'')
                     None)
         ''list_tables'' Undefined)
     = Inr \<lparr>content = [\<lparr>ctype = ''text'', ctext = Literal ''Error: connection refused''\<rparr>],
            isError = Some True\<rparr>
   \<and> fst (CallTool (DatabaseMCPServer (recording_adapter ''RedisAdapter'') None)
         ''redis_keys'' (Obj [(''pattern'', Str ''*'')]))
     = Inr \<lparr>content = [\<lparr>ctype = ''text'',
              ctext = Literal (''Error: Cannot read properties of null (reading ''
                               @ quoted ''length'' @ '')'')\<rparr>],
            isError = Some True\<rparr>"
proof (intro conjI)
  let ?pg = "DatabaseMCPServer (recording_adapter ''PostgresAdapter'') None"
  let ?rw = "DatabaseMCPServer (recording_adapter ''PostgresAdapter'') (Some ''false'')"
  let ?bad = "DatabaseMCPServer (failing_adapter ''PostgresAdapter'' ''connection refused'') None"
  let ?redis = "DatabaseMCPServer (recording_adapter ''RedisAdapter'') None"
  have pg: "?pg = serve ?pg []" and rw: "?rw = serve ?rw []"
    and bad: "?bad = serve ?bad []" and redis: "?redis = serve ?redis []"
    by simp_all
  have "tool_of_name ''drop_table'' = None"
    by (simp add: tool_of_name_None registered_tools_def sql_tools_def redis_tools_def
        mongo_tools_def ldap_tools_def)
  from C6_errors_are_answered [OF pg, THEN conjunct2, THEN conjunct1, rule_format, OF this]
  show "fst (CallTool ?pg ''drop_table'' (Obj []))
     = Inr \<lparr>content = [\<lparr>ctype = ''text'', ctext = Literal ''Error: Unknown tool: drop_table''\<rparr>],
            isError = Some True\<rparr>"
    by simp
  have "before_call (SQL Execute_sql) ?pg (Obj [(''sql'', Str ''DELETE FROM t'')])
      = Inl (ErrorObj ''Server is running in read-only mode. Write operations are disabled.'')"
    by (simp add: checkReadOnly_def DatabaseMCPServer_def resolve_readOnly_def)
  from C6_errors_are_answered [OF pg, THEN conjunct2, THEN conjunct2, THEN conjunct1,
      rule_format, OF tool_of_name_label(2) this]
  show "fst (CallTool ?pg ''execute_sql'' (Obj [(''sql'', Str ''DELETE FROM t'')]))
     = Inr \<lparr>content = [\<lparr>ctype = ''text'', ctext = Literal
              ''Error: Server is running in read-only mode. Write operations are disabled.''\<rparr>],
            isError = Some True\<rparr>"
    by simp
  have "before_call (Redis Redis_get) ?rw (Obj [(''key'', Str ''k'')])
      = Inl (ErrorObj ''This tool is only available for Redis'')"
    by (simp add: only_for_def DatabaseMCPServer_def recording_adapter_def)
  from C6_errors_are_answered [OF rw, THEN conjunct2, THEN conjunct2, THEN conjunct1,
      rule_format, OF tool_of_name_label(14) this]
  show "fst (CallTool ?rw ''redis_get'' (Obj [(''key'', Str ''k'')]))
     = Inr \<lparr>content = [\<lparr>ctype = ''text'',
              ctext = Literal ''Error: This tool is only available for Redis''\<rparr>],
            isError = Some True\<rparr>"
    by simp
  have "before_call (SQL Describe_table) ?pg Undefined
      = Inl (ErrorObj (''Cannot destructure property '' @ quoted ''table''
                       @ '' of '' @ quoted ''args'' @ '' as it is undefined.''))"
    by simp
  from C6_errors_are_answered [OF pg, THEN conjunct2, THEN conjunct2, THEN conjunct1,
      rule_format, OF tool_of_name_label(4) this]
  show "fst (CallTool ?pg ''describe_table'' Undefined)
     = Inr \<lparr>content = [\<lparr>ctype = ''text'',
              ctext = Literal (''Error: Cannot destructure property '' @ quoted ''table''
                               @ '' of '' @ quoted ''args'' @ '' as it is undefined.'')\<rparr>],
            isError = Some True\<rparr>"
    by simp
  have "before_call (SQL Query) ?pg (Obj [(''sql'', Str ''DROP TABLE t'')])
      = Inl (ErrorObj ''Query tool only supports SELECT statements'')"
    by (simp add: startsWith_def toUpperCase_def trim_def toUpperCase_char_def
        js_whitespace_def)
  from C6_errors_are_answered [OF pg, THEN conjunct2, THEN conjunct2, THEN conjunct1,
      rule_format, OF tool_of_name_label(1) this]
  show "fst (CallTool ?pg ''query'' (Obj [(''sql'', Str ''DROP TABLE t'')]))
     = Inr \<lparr>content = [\<lparr>ctype = ''text'',
              ctext = Literal ''Error: Query tool only supports SELECT statements''\<rparr>],
            isError = Some True\<rparr>"
    by simp
  have c: "before_call (SQL List_tables) ?bad Undefined = Inr (''listTables'', [Str ''public''])"
    by (simp add: or_else_def)
  have b: "adapter ?bad = Some (failing_adapter ''PostgresAdapter'' ''connection refused'')"
    by (simp add: DatabaseMCPServer_def)
  have e: "fst (invoke (failing_adapter ''PostgresAdapter'' ''connection refused'')
        ''listTables'' [Str ''public'']
        (astate (failing_adapter ''PostgresAdapter'' ''connection refused'')))
      = Inl (ErrorObj ''connection refused'')"
    by (simp add: failing_adapter_def)
  from C6_errors_are_answered [OF bad, THEN conjunct2, THEN conjunct2, THEN conjunct2,
      THEN conjunct1, rule_format, OF tool_of_name_label(3) c b e]
  show "fst (CallTool ?bad ''list_tables'' Undefined)
     = Inr \<lparr>content = [\<lparr>ctype = ''text'', ctext = Literal ''Error: connection refused''\<rparr>],
            isError = Some True\<rparr>"
    by simp
  have c: "before_call (Redis Redis_keys) ?redis (Obj [(''pattern'', Str ''*'')])
      = Inr (''keys'', [Str ''*''])"
    by (simp add: only_for_def DatabaseMCPServer_def recording_adapter_def)
  have b: "adapter ?redis = Some (recording_adapter ''RedisAdapter'')"
    by (simp add: DatabaseMCPServer_def)
  have r: "fst (invoke (recording_adapter ''RedisAdapter'') ''keys'' [Str ''*'']
        (astate (recording_adapter ''RedisAdapter''))) = Inr Null"
    by (simp add: recording_adapter_def)
  have a: "after_call (Redis Redis_keys) (Obj [(''pattern'', Str ''*'')]) Null
      = Inl (ErrorObj (''Cannot read properties of null (reading '' @ quoted ''length''
                       @ '')''))"
    by simp
  from C6_errors_are_answered [OF redis, THEN conjunct2, THEN conjunct2, THEN conjunct2,
      THEN conjunct2, THEN conjunct1, rule_format, OF tool_of_name_label(17) c b r a]
  show "fst (CallTool ?redis ''redis_keys'' (Obj [(''pattern'', Str ''*'')]))
     = Inr \<lparr>content = [\<lparr>ctype = ''text'',
              ctext = Literal (''Error: Cannot read properties of null (reading ''
                               @ quoted ''length'' @ '')'')\<rparr>],
            isError = Some True\<rparr>"
    by simp
qed

subsection \<open>The catalog\<close>

lemma distinct_names:
  "distinct (map name registered_tools)"
  by (simp add: registered_tools_def sql_tools_def redis_tools_def mongo_tools_def ldap_tools_def)

lemma listed_applicable:
  assumes "d \<in> set (ListTools srv)"
  shows "\<exists>t. tool_of_name (name d) = Some t \<and> applicable t srv"
proof -
  from assms consider
      "d \<in> set sql_tools" "\<not> isRedis srv \<and> \<not> isMongo srv \<and> \<not> isLDAP srv"
    | "d \<in> set redis_tools" "isRedis srv"
    | "d \<in> set mongo_tools" "isMongo srv"
    | "d \<in> set ldap_tools" "isLDAP srv"
    by (auto simp add: ListTools_def split: if_splits)
  then show ?thesis
  proof cases
    case 1
    from 1(1) have "\<exists>t. tool_of_name (name d) = Some (SQL t)"
      by (auto simp add: sql_tools_def tool_of_name_label)
    with 1(2) show ?thesis by auto
  next
    case 2
    from 2(1) have "\<exists>t. tool_of_name (name d) = Some (Redis t)"
      by (auto simp add: redis_tools_def tool_of_name_label)
    with 2(2) show ?thesis by auto
  next
    case 3
    from 3(1) have "\<exists>t. tool_of_name (name d) = Some (Mongo t)"
      by (auto simp add: mongo_tools_def tool_of_name_label)
    with 3(2) show ?thesis by auto
  next
    case 4
    from 4(1) have "\<exists>t. tool_of_name (name d) = Some (LDAP t)"
      by (auto simp add: ldap_tools_def tool_of_name_label)
    with 4(2) show ?thesis by auto
  qed
qed

lemma distinct_ListTools: "distinct (map name (ListTools srv))"
proof -
  have "distinct (map name sql_tools)" "distinct (map name redis_tools)"
    "distinct (map name mongo_tools)" "distinct (map name ldap_tools)"
    using distinct_names by (simp_all add: registered_tools_def)
  moreover have "set (map name redis_tools) \<inter> set (map name mongo_tools) = {}"
    "set (map name redis_tools) \<inter> set (map name ldap_tools) = {}"
    "set (map name mongo_tools) \<inter> set (map name ldap_tools) = {}"
    "set (map name sql_tools) \<inter> set (map name redis_tools) = {}"
    using distinct_names unfolding registered_tools_def map_append distinct_append by auto
  ultimately show ?thesis
    by (simp add: ListTools_def Int_Un_distrib)
qed

text \<open>
  C7: for the adapter of every class name, so for every backend kind, and after any sequence
  of requests: the names of the listed tools are distinct; every listed tool has its case in
  the switch and applies to the active adapter (the generic SQL tools are listed only when
  the adapter is none of Redis, MongoDB and LDAP, the tools of each of these three only
  under their own adapter); and the list equals the list of the freshly built server,
  which is one of the four groups, chosen by the class name of the adapter alone.
\<close>

theorem C7_catalog:
  assumes "srv = serve (DatabaseMCPServer a env) rqs"
  shows "distinct (map name (ListTools srv))
    \<and> (\<forall>d \<in> set (ListTools srv). \<exists>t. tool_of_name (name d) = Some t \<and> applicable t srv)
    \<and> ListTools srv = ListTools (DatabaseMCPServer a env)
    \<and> ListTools srv =
        (if ctor_name a = ''RedisAdapter'' then redis_tools
         else if ctor_name a = ''MongoAdapter'' then mongo_tools
         else if ctor_name a = ''LDAPAdapter'' then ldap_tools
         else sql_tools)"
proof -
  have same: "ListTools srv = ListTools (DatabaseMCPServer a env)"
    unfolding assms by (rule ListTools_configuration [OF serve_configuration])
  have "ListTools (DatabaseMCPServer a env) =
        (if ctor_name a = ''RedisAdapter'' then redis_tools
         else if ctor_name a = ''MongoAdapter'' then mongo_tools
         else if ctor_name a = ''LDAPAdapter'' then ldap_tools
         else sql_tools)"
    by (auto simp add: ListTools_def DatabaseMCPServer_def)
  with same distinct_ListTools [of srv] listed_applicable [of _ srv] show ?thesis
    by (simp only:) blast
qed

text \<open>C7, witness: a Redis server that has already served one request.\<close>

theorem C7_redis_witness:
  "distinct (map name (ListTools
       (serve (DatabaseMCPServer (recording_adapter ''RedisAdapter'') None)
          [(''redis_dbsize'', Undefined)])))
   \<and> ListTools (serve (DatabaseMCPServer (recording_adapter ''RedisAdapter'') None)
          [(''redis_dbsize'', Undefined)]) = redis_tools
   \<and> \<lparr>name = ''redis_get'', properties = [(''key'', ''string'')],
       required = [''key'']\<rparr>
        \<in> set (ListTools (serve (DatabaseMCPServer (recording_adapter ''RedisAdapter'') None)
          [(''redis_dbsize'', Undefined)]))
   \<and> (\<exists>t. tool_of_name ''redis_get'' = Some t
          \<and> applicable t (serve (DatabaseMCPServer (recording_adapter ''RedisAdapter'') None)
                 [(''redis_dbsize'', Undefined)]))"
proof -
  let ?srv = "serve (DatabaseMCPServer (recording_adapter ''RedisAdapter'') None)
      [(''redis_dbsize'', Undefined)]"
  let ?d = "\<lparr>name = ''redis_get'', properties = [(''key'', ''string'')],
      required = [''key'']\<rparr>"
  note c7 = C7_catalog [of ?srv "recording_adapter ''RedisAdapter''" None
      "[(''redis_dbsize'', Undefined)]", OF refl]
  have cn: "ctor_name (recording_adapter ''RedisAdapter'') = ''RedisAdapter''"
    by (simp add: recording_adapter_def)
  from c7 [unfolded cn [THEN eqTrueI] if_True] have l: "ListTools ?srv = redis_tools"
    by blast
  have "?d \<in> set redis_tools" by (simp add: redis_tools_def)
  with l have m: "?d \<in> set (ListTools ?srv)" by simp
  from c7 m have "\<exists>t. tool_of_name (name ?d) = Some t \<and> applicable t ?srv" by blast
  then have "\<exists>t. tool_of_name ''redis_get'' = Some t \<and> applicable t ?srv"
    by (simp only: Tool.simps)
  with c7 l m show ?thesis by blast
qed

subsection \<open>Read operations under read-only mode\<close>

lemma conforms_object: "conforms d args \<Longrightarrow> \<exists>kvs. args = Obj kvs"
  by (cases args) (simp_all add: conforms_def)

lemma sql_tools_reach:
  assumes "d \<in> set sql_tools" and "name d \<notin> set mutating_operations"
    and "conforms d args"
    and "name d = ''query'' \<longrightarrow>
          (\<exists>sql. get_prop args ''sql'' = Str sql \<and> startsWith (toUpperCase (trim sql)) ''SELECT'')"
  shows "\<exists>t m as. tool_of_name (name d) = Some t \<and> map_of adapter_methods (name d) = Some m
           \<and> before_call t srv args = Inr (m, as)"
proof -
  from conforms_object [OF assms(3)] obtain kvs where "args = Obj kvs" by blast
  with assms(1,2,4) show ?thesis
    by (auto simp add: sql_tools_def tool_of_name_label adapter_methods_label
        mutating_operations_def)
qed

lemma redis_tools_reach:
  assumes "d \<in> set redis_tools" and "name d \<notin> set mutating_operations"
    and "conforms d args" and "isRedis srv"
  shows "\<exists>t m as. tool_of_name (name d) = Some t \<and> map_of adapter_methods (name d) = Some m
           \<and> before_call t srv args = Inr (m, as)"
proof -
  from conforms_object [OF assms(3)] obtain kvs where "args = Obj kvs" by blast
  with assms(1,2,4) show ?thesis
    by (auto simp add: redis_tools_def tool_of_name_label adapter_methods_label
        mutating_operations_def only_for_def)
qed

lemma mongo_tools_reach:
  assumes "d \<in> set mongo_tools" and "name d \<notin> set mutating_operations"
    and "conforms d args" and "isMongo srv"
  shows "\<exists>t m as. tool_of_name (name d) = Some t \<and> map_of adapter_methods (name d) = Some m
           \<and> before_call t srv args = Inr (m, as)"
proof -
  from conforms_object [OF assms(3)] obtain kvs where "args = Obj kvs" by blast
  with assms(1,2,4) show ?thesis
    by (auto simp add: mongo_tools_def tool_of_name_label adapter_methods_label
        mutating_operations_def only_for_def)
qed

lemma ldap_tools_reach:
  assumes "d \<in> set ldap_tools" and "name d \<notin> set mutating_operations"
    and "conforms d args" and "isLDAP srv"
  shows "\<exists>t m as. tool_of_name (name d) = Some t \<and> map_of adapter_methods (name d) = Some m
           \<and> before_call t srv args = Inr (m, as)"
proof -
  from conforms_object [OF assms(3)] obtain kvs where "args = Obj kvs" by blast
  with assms(1,2,4) show ?thesis
    by (auto simp add: ldap_tools_def tool_of_name_label adapter_methods_label
        mutating_operations_def only_for_def)
qed

lemma ungated_ignores_readOnly:
  assumes "t \<notin> set gated_tools"
  shows "before_call t (srv\<lparr>readOnly := ro\<rparr>) args = before_call t srv args"
proof (cases t)
  case (SQL x)
  with assms show ?thesis by (cases x) (simp_all add: gated_tools_def)
next
  case (Redis x)
  with assms show ?thesis by (cases x) (simp_all add: gated_tools_def)
next
  case (Mongo x)
  with assms show ?thesis by (cases x) (simp_all add: gated_tools_def)
next
  case (LDAP x)
  with assms show ?thesis by (cases x) (simp_all add: gated_tools_def)
qed

text \<open>
  C8 (as stated, refuted): \<open>query\<close> is listed for a PostgreSQL server and is no write
  operation, and an argument object with the string WITH x AS (SELECT 1) SELECT * FROM x
  as \<open>sql\<close> is well-formed for its schema; yet on a read-only server it is answered with the
  error of the SELECT check and the adapter has recorded no call.
\<close>

theorem C8_with_query_is_rejected:
  "readOnly (DatabaseMCPServer (recording_adapter ''PostgresAdapter'') None)
   \<and> \<lparr>name = ''query'', properties = [(''sql'', ''string'')], required = [''sql'']\<rparr>
        \<in> set (ListTools (DatabaseMCPServer (recording_adapter ''PostgresAdapter'') None))
   \<and> ''query'' \<notin> set mutating_operations
   \<and> conforms \<lparr>name = ''query'', properties = [(''sql'', ''string'')], required = [''sql'']\<rparr>
        (Obj [(''sql'', Str ''WITH x AS (SELECT 1) SELECT * FROM x'')])
   \<and> fst (CallTool (DatabaseMCPServer (recording_adapter ''PostgresAdapter'') None) ''query''
          (Obj [(''sql'', Str ''WITH x AS (SELECT 1) SELECT * FROM x'')]))
      = Inr \<lparr>content = [\<lparr>ctype = ''text'',
               ctext = Literal ''Error: Query tool only supports SELECT statements''\<rparr>],
             isError = Some True\<rparr>
   \<and> snd (snd (CallTool (DatabaseMCPServer (recording_adapter ''PostgresAdapter'') None) ''query''
          (Obj [(''sql'', Str ''WITH x AS (SELECT 1) SELECT * FROM x'')]))) = []
   \<and> map_option astate (adapter (fst (snd
          (CallTool (DatabaseMCPServer (recording_adapter ''PostgresAdapter'') None) ''query''
             (Obj [(''sql'', Str ''WITH x AS (SELECT 1) SELECT * FROM x'')])))))
      = Some []"
  by (simp add: CallTool_def switch_name_def run_case_def tool_of_name_label
      DatabaseMCPServer_def resolve_readOnly_def recording_adapter_def ListTools_def
      sql_tools_def mutating_operations_def conforms_def startsWith_def toUpperCase_def
      trim_def toUpperCase_char_def js_whitespace_def error_response_def)

text \<open>
  C8 (amended): on every server that the constructor built, after any sequence of requests,
  a listed tool that is not a write operation, called with arguments that are well-formed
  for its schema, reaches the adapter method of its case, except \<open>query\<close> with a statement
  that fails the SELECT check of its case. The method of the adapter is invoked with the
  arguments of the case: the trace is that one call and the adapter is left in the state
  its method returns. The read-only gate never blocks such a tool: with any value of
  \<open>readOnly\<close> the case comes to the same call.
\<close>

theorem C8_non_mutating_reaches_adapter:
  assumes "srv = serve (DatabaseMCPServer a env) rqs"
    and "d \<in> set (ListTools srv)" and "name d \<notin> set mutating_operations"
    and "conforms d args"
    and "name d = ''query'' \<longrightarrow>
          (\<exists>sql. get_prop args ''sql'' = Str sql \<and> startsWith (toUpperCase (trim sql)) ''SELECT'')"
  shows "\<exists>t b m as. tool_of_name (name d) = Some t \<and> adapter srv = Some b
           \<and> map_of adapter_methods (name d) = Some m
           \<and> before_call t srv args = Inr (m, as)
           \<and> snd (snd (CallTool srv (name d) args)) = [(m, as)]
           \<and> map_option astate (adapter (fst (snd (CallTool srv (name d) args))))
               = Some (snd (invoke b m as (astate b)))
           \<and> (\<forall>ro. before_call t (srv\<lparr>readOnly := ro\<rparr>) args = Inr (m, as))"
proof -
  from served_adapter [OF assms(1)] obtain b where b: "adapter srv = Some b" by blast
  from assms(2) consider
      "d \<in> set sql_tools"
    | "d \<in> set redis_tools" "isRedis srv"
    | "d \<in> set mongo_tools" "isMongo srv"
    | "d \<in> set ldap_tools" "isLDAP srv"
    by (auto simp add: ListTools_def split: if_splits)
  then have "\<exists>t m as. tool_of_name (name d) = Some t
      \<and> map_of adapter_methods (name d) = Some m \<and> before_call t srv args = Inr (m, as)"
  proof cases
    case 1
    then show ?thesis using sql_tools_reach assms(3,4,5) by blast
  next
    case 2
    then show ?thesis using redis_tools_reach assms(3,4) by blast
  next
    case 3
    then show ?thesis using mongo_tools_reach assms(3,4) by blast
  next
    case 4
    then show ?thesis using ldap_tools_reach assms(3,4) by blast
  qed
  then obtain t m as where t: "tool_of_name (name d) = Some t"
    and m: "map_of adapter_methods (name d) = Some m"
    and c: "before_call t srv args = Inr (m, as)"
    by blast
  from gated_iff_mutating [OF t] assms(3) have ng: "t \<notin> set gated_tools" by simp
  have ro: "\<forall>ro. before_call t (srv\<lparr>readOnly := ro\<rparr>) args = Inr (m, as)"
    by (simp add: ungated_ignores_readOnly [OF ng] c)
  from CallTool_invoke [OF b t c] t b m c ro show ?thesis by blast
qed

text \<open>
  C8, witness: \<open>redis_get\<close> on a read-only Redis server; the adapter has recorded the call of
  its method \<open>get\<close> with the key.
\<close>

theorem C8_redis_get_witness:
  "readOnly (DatabaseMCPServer (recording_adapter ''RedisAdapter'') None)
   \<and> \<lparr>name = ''redis_get'', properties = [(''key'', ''string'')], required = [''key'']\<rparr>
        \<in> set (ListTools (DatabaseMCPServer (recording_adapter ''RedisAdapter'') None))
   \<and> ''redis_get'' \<notin> set mutating_operations
   \<and> conforms \<lparr>name = ''redis_get'', properties = [(''key'', ''string'')], required = [''key'']\<rparr>
        (Obj [(''key'', Str ''k'')])
   \<and> snd (snd (CallTool (DatabaseMCPServer (recording_adapter ''RedisAdapter'') None)
          ''redis_get'' (Obj [(''key'', Str ''k'')])))
      = [(''get'', [Str ''k''])]
   \<and> map_option astate (adapter (fst (snd
          (CallTool (DatabaseMCPServer (recording_adapter ''RedisAdapter'') None)
             ''redis_get'' (Obj [(''key'', Str ''k'')])))))
      = Some [(''get'', [Str ''k''])]"
proof -
  let ?srv = "DatabaseMCPServer (recording_adapter ''RedisAdapter'') None"
  let ?d = "\<lparr>name = ''redis_get'', properties = [(''key'', ''string'')], required = [''key'']\<rparr>"
  let ?args = "Obj [(''key'', Str ''k'')]"
  have h0: "readOnly ?srv" by (simp add: DatabaseMCPServer_def resolve_readOnly_def)
  have h1: "?srv = serve ?srv []" by simp
  have h2: "?d \<in> set (ListTools ?srv)"
    by (simp add: ListTools_def DatabaseMCPServer_def recording_adapter_def redis_tools_def)
  have h3: "name ?d \<notin> set mutating_operations" by (simp add: mutating_operations_def)
  have h4: "conforms ?d ?args" by (simp add: conforms_def)
  have h5: "name ?d = ''query'' \<longrightarrow>
      (\<exists>sql. get_prop ?args ''sql'' = Str sql \<and> startsWith (toUpperCase (trim sql)) ''SELECT'')"
    by simp
  from C8_non_mutating_reaches_adapter [OF h1 h2 h3 h4 h5]
  obtain t b m as where t: "tool_of_name (name ?d) = Some t"
    and b: "adapter ?srv = Some b"
    and c: "before_call t ?srv ?args = Inr (m, as)"
    and tr: "snd (snd (CallTool ?srv (name ?d) ?args)) = [(m, as)]"
    and st: "map_option astate (adapter (fst (snd (CallTool ?srv (name ?d) ?args))))
        = Some (snd (invoke b m as (astate b)))"
    by blast
  from t have "t = Redis Redis_get" by (simp add: tool_of_name_label)
  with c have ma: "m = ''get''" "as = [Str ''k'']"
    by (simp_all add: only_for_def DatabaseMCPServer_def recording_adapter_def)
  from b have "b = recording_adapter ''RedisAdapter''" by (simp add: DatabaseMCPServer_def)
  with st ma have "map_option astate (adapter (fst (snd (CallTool ?srv (name ?d) ?args))))
      = Some [(''get'', [Str ''k''])]"
    by (simp add: recording_adapter_def)
  with tr ma h0 h2 h3 h4 show ?thesis by simp
qed

subsection \<open>Tools of another backend\<close>

lemma before_call_foreign:
  assumes "only_available_for t = Some what" and "\<not> applicable t srv"
  shows "before_call t srv args =
           Inl (ErrorObj (if readOnly srv \<and> t \<in> set gated_tools
                          then ''Server is running in read-only mode. Write operations are disabled.''
                          else ''This tool is only available for '' @ what))"
proof (cases t)
  case (SQL x)
  with assms(1) show ?thesis by simp
next
  case (Redis x)
  with assms show ?thesis
    by (cases x) (simp_all add: gated_tools_def checkReadOnly_def only_for_def)
next
  case (Mongo x)
  with assms show ?thesis
    by (cases x) (simp_all add: gated_tools_def checkReadOnly_def only_for_def)
next
  case (LDAP x)
  with assms show ?thesis
    by (cases x) (simp_all add: gated_tools_def checkReadOnly_def only_for_def)
qed

text \<open>
  C3 (as stated, refuted): on a PostgreSQL server \<open>redis_get\<close> is answered with "This tool is
  only available for Redis", which is not the answer "Unknown tool: redis_get" that a name
  of no backend gets (as \<open>redis_put\<close> does): the caller learns that the tool exists.
\<close>

theorem C3_redis_get_on_postgres_differs:
  "fst (CallTool (DatabaseMCPServer (recording_adapter ''PostgresAdapter'') (Some ''false''))
          ''redis_get'' (Obj [(''key'', Str ''k'')]))
     = Inr (error_response ''This tool is only available for Redis'')
   \<and> fst (CallTool (DatabaseMCPServer (recording_adapter ''PostgresAdapter'') (Some ''false''))
          ''redis_get'' (Obj [(''key'', Str ''k'')]))
     \<noteq> Inr (error_response ''Unknown tool: redis_get'')
   \<and> fst (CallTool (DatabaseMCPServer (recording_adapter ''PostgresAdapter'') (Some ''false''))
          ''redis_put'' (Obj [(''key'', Str ''k'')]))
     = Inr (error_response ''Unknown tool: redis_put'')"
  by (simp add: CallTool_def switch_name_def run_case_def tool_of_name_label tool_of_name_def
      case_labels_def DatabaseMCPServer_def recording_adapter_def only_for_def
      error_response_def)

text \<open>
  C3 (amended): a tool specific to Redis, MongoDB or LDAP, called while another adapter is
  active, is answered with an error response and without any adapter call: with the
  read-only message when the server is read-only and the tool is a write operation, and
  otherwise with "This tool is only available for" and the backend of the tool. Either
  response differs from the response "Unknown tool" for the same name.
\<close>

theorem C3_foreign_tool_is_told_apart:
  assumes "adapter srv = Some a" and "tool_of_name nm = Some t"
    and "only_available_for t = Some what" and "\<not> applicable t srv"
  shows "CallTool srv nm args =
           (Inr (error_response
                  (if readOnly srv \<and> nm \<in> set mutating_operations
                   then ''Server is running in read-only mode. Write operations are disabled.''
                   else ''This tool is only available for '' @ what)),
            srv, [])
         \<and> fst (CallTool srv nm args) \<noteq> Inr (error_response (''Unknown tool: '' @ nm))"
proof -
  let ?msg = "if readOnly srv \<and> nm \<in> set mutating_operations
      then ''Server is running in read-only mode. Write operations are disabled.''
      else ''This tool is only available for '' @ what"
  have "before_call t srv args = Inl (ErrorObj ?msg)"
    using before_call_foreign [OF assms(3,4)] gated_iff_mutating [OF assms(2)] by simp
  then have "switch_name srv nm args = (Inl (ErrorObj ?msg), srv, [])"
    by (simp only: switch_name_def assms(2) option.case run_case_thrown)
  from CallTool_thrown [OF assms(1) this]
  have call: "CallTool srv nm args = (Inr (error_response ?msg), srv, [])" by simp
  have "error_response ?msg \<noteq> error_response (''Unknown tool: '' @ nm)"
    by (simp add: error_response_def)
  with call show ?thesis by simp
qed

text \<open>C3, witness: \<open>mongo_find\<close> on a read-write PostgreSQL server.\<close>

theorem C3_mongo_find_on_postgres_witness:
  "adapter (DatabaseMCPServer (recording_adapter ''PostgresAdapter'') (Some ''0''))
     = Some (recording_adapter ''PostgresAdapter'')
   \<and> tool_of_name ''mongo_find'' = Some (Mongo Mongo_find)
   \<and> only_available_for (Mongo Mongo_find) = Some ''MongoDB''
   \<and> \<not> applicable (Mongo Mongo_find)
         (DatabaseMCPServer (recording_adapter ''PostgresAdapter'') (Some ''0''))
   \<and> CallTool (DatabaseMCPServer (recording_adapter ''PostgresAdapter'') (Some ''0''))
        ''mongo_find'' (Obj [(''collection'', Str ''users'')])
      = (Inr (error_response ''This tool is only available for MongoDB''),
         DatabaseMCPServer (recording_adapter ''PostgresAdapter'') (Some ''0''), [])"
proof -
  let ?srv = "DatabaseMCPServer (recording_adapter ''PostgresAdapter'') (Some ''0'')"
  have h1: "adapter ?srv = Some (recording_adapter ''PostgresAdapter'')"
    by (simp add: DatabaseMCPServer_def)
  have h2: "tool_of_name ''mongo_find'' = Some (Mongo Mongo_find)"
    by (rule tool_of_name_label)
  have h3: "only_available_for (Mongo Mongo_find) = Some ''MongoDB''" by simp
  have h4: "\<not> applicable (Mongo Mongo_find) ?srv"
    by (simp add: DatabaseMCPServer_def recording_adapter_def)
  have ro: "\<not> readOnly ?srv" by (simp add: DatabaseMCPServer_def resolve_readOnly_def)
  from C3_foreign_tool_is_told_apart [OF h1 h2 h3 h4, of "Obj [(''collection'', Str ''users'')]"]
    ro h1 h2 h3 h4
  show ?thesis by simp
qed

text \<open>
  The generic SQL tools have no such guard: on a Redis server, where \<open>ListTools\<close> does not
  offer them, \<open>list_tables\<close> still calls the method \<open>listTables\<close> of the adapter.
\<close>

lemma generic_tool_on_redis_reaches_adapter:
  "snd (snd (CallTool (DatabaseMCPServer (recording_adapter ''RedisAdapter'') None)
               ''list_tables'' Undefined))
     = [(''listTables'', [Str ''public''])]"
  by (simp add: CallTool_def switch_name_def run_case_def tool_of_name_label
      DatabaseMCPServer_def adapter_call_def recording_adapter_def or_else_def)

subsection \<open>Authentication against the directory\<close>

text \<open>
  C10 (as stated, refuted): the adapter holds stored credentials and a bind with a wrong
  password fails; \<open>authenticate\<close> returns false and the only call made on the client is the
  failed bind: no bind with the stored credentials follows.
\<close>

theorem C10_no_rebind_after_failed_bind:
  "authenticate test_directory service_account (Str ''cn=eve'') (Str ''guess'')
     = (Inr False, service_account\<lparr>client := Some None\<rparr>,
         [Bind (Str ''cn=eve'') (Str ''guess'')])"
  by (simp add: authenticate_def authenticate_try_def bind_def test_directory_def
      service_account_def)

lemma authenticate_total:
  "\<exists>b. fst (authenticate lib this dn password) = Inr b"
  by (auto simp add: authenticate_def split: prod.splits sum.splits)

lemma CallTool_ldap_authenticate:
  assumes "srv = DatabaseMCPServer (LDAPAdapter_object lib others this) env"
    and "args = Obj kvs"
  shows "\<exists>b. fst (CallTool srv ''ldap_authenticate'' args) =
           Inr \<lparr>content = [\<lparr>ctype = ''text'',
                    ctext = JSON_stringify (Obj [(''dn'', get_prop args ''dn''),
                                                 (''authenticated'', Bool b)])\<rparr>],
                isError = None\<rparr>"
proof -
  obtain r this' tr where a: "authenticate lib this (get_prop args ''dn'') (get_prop args ''password'')
      = (r, this', tr)"
    by (cases "authenticate lib this (get_prop args ''dn'') (get_prop args ''password'')") auto
  with authenticate_total [of lib this "get_prop args ''dn''" "get_prop args ''password''"]
  obtain b where "r = Inr b" by auto
  with a assms show ?thesis
    by (simp add: CallTool_def switch_name_def run_case_def tool_of_name_label
        DatabaseMCPServer_def LDAPAdapter_object_def adapter_call_def only_for_def
        actual_def success_response_def)
qed

text \<open>
  C10 (amended): \<open>authenticate\<close> never throws. It returns false, making no further call on the
  client, when the bind throws, and false when the unbind after it throws. When both
  succeed it binds again with the stored credentials if both are non-empty, and returns
  true unless that bind throws; without stored credentials it returns true. So on an LDAP
  server \<open>ldap_authenticate\<close>, given an arguments object, is answered by a success response
  (\<open>isError\<close> absent) whose payload has a boolean field \<open>authenticated\<close>.
\<close>

theorem C10_authenticate_never_raises:
  "(\<exists>b. fst (authenticate lib this dn password) = Inr b)
   \<and> (\<forall>e this1 t1. bind lib this dn password = (Inl e, this1, t1) \<longrightarrow>
         authenticate lib this dn password = (Inr False, this1, t1))
   \<and> (\<forall>this1 t1 e this2 t2. bind lib this dn password = (Inr (), this1,
       t1) \<longrightarrow>
         unbind lib this1 = (Inl e, this2, t2) \<longrightarrow>
         authenticate lib this dn password = (Inr False, this2, t1 @ t2))
   \<and> (\<forall>this1 t1 this2 t2. bind lib this dn password = (Inr (), this1,
       t1) \<longrightarrow>
         unbind lib this1 = (Inr (), this2, t2) \<longrightarrow>
         authenticate lib this dn password =
           (if bindDN this2 \<noteq> [] \<and> bindPassword this2 \<noteq> []
            then (case bind lib this2 (Str (bindDN this2)) (Str (bindPassword this2)) of
                    (Inl e, this3, t3) \<Rightarrow> (Inr False, this3, t1 @ t2 @ t3)
                  | (Inr u, this3, t3) \<Rightarrow> (Inr True, this3, t1 @ t2 @ t3))
            else (Inr True, this2, t1 @ t2)))
   \<and> (\<forall>others env kvs. \<exists>b.
         fst (CallTool (DatabaseMCPServer (LDAPAdapter_object lib others this) env)
                ''ldap_authenticate'' (Obj kvs)) =
           Inr \<lparr>content = [\<lparr>ctype = ''text'',
                    ctext = JSON_stringify (Obj [(''dn'', get_prop (Obj kvs) ''dn''),
                                                 (''authenticated'', Bool b)])\<rparr>],
                isError = None\<rparr>)"
proof (intro conjI allI impI)
  show "\<exists>b. fst (authenticate lib this dn password) = Inr b" by (rule authenticate_total)
next
  fix e this1 t1
  assume "bind lib this dn password = (Inl e, this1, t1)"
  then show "authenticate lib this dn password = (Inr False, this1, t1)"
    by (simp add: authenticate_def authenticate_try_def)
next
  fix this1 t1 e this2 t2
  assume "bind lib this dn password = (Inr (), this1, t1)" "unbind lib this1 = (Inl e, this2, t2)"
  then show "authenticate lib this dn password = (Inr False, this2, t1 @ t2)"
    by (simp add: authenticate_def authenticate_try_def)
next
  fix this1 t1 this2 t2
  assume "bind lib this dn password = (Inr (), this1, t1)" "unbind lib this1 = (Inr (), this2, t2)"
  then show "authenticate lib this dn password =
           (if bindDN this2 \<noteq> [] \<and> bindPassword this2 \<noteq> []
            then (case bind lib this2 (Str (bindDN this2)) (Str (bindPassword this2)) of
                    (Inl e, this3, t3) \<Rightarrow> (Inr False, this3, t1 @ t2 @ t3)
                  | (Inr u, this3, t3) \<Rightarrow> (Inr True, this3, t1 @ t2 @ t3))
            else (Inr True, this2, t1 @ t2))"
    by (simp add: authenticate_def authenticate_try_def split: prod.splits sum.splits)
next
  fix others env kvs
  show "\<exists>b. fst (CallTool (DatabaseMCPServer (LDAPAdapter_object lib others this) env)
                ''ldap_authenticate'' (Obj kvs)) =
           Inr \<lparr>content = [\<lparr>ctype = ''text'',
                    ctext = JSON_stringify (Obj [(''dn'', get_prop (Obj kvs) ''dn''),
                                                 (''authenticated'', Bool b)])\<rparr>],
                isError = None\<rparr>"
    by (rule CallTool_ldap_authenticate [OF refl refl])
qed

text \<open>
  C10, witness: a successful authentication binds, unbinds and binds again as the service
  account.
\<close>

theorem C10_rebind_after_success_witness:
  "authenticate test_directory service_account (Str ''cn=bob'') (Str ''secret'')
     = (Inr True, service_account,
        [Bind (Str ''cn=bob'') (Str ''secret''), Unbind, Bind (Str ''cn=admin'') (Str ''secret'')])"
proof -
  have b: "bind test_directory service_account (Str ''cn=bob'') (Str ''secret'')
      = (Inr (), service_account\<lparr>client := Some (Some (Str ''cn=bob''))\<rparr>,
         [Bind (Str ''cn=bob'') (Str ''secret'')])"
    by (simp add: bind_def test_directory_def service_account_def)
  have u: "unbind test_directory (service_account\<lparr>client := Some (Some (Str ''cn=bob''))\<rparr>)
      = (Inr (), service_account\<lparr>client := Some None\<rparr>, [Unbind])"
    by (simp add: unbind_def test_directory_def service_account_def)
  from C10_authenticate_never_raises [of test_directory service_account "Str ''cn=bob''"
      "Str ''secret''", THEN conjunct2, THEN conjunct2, THEN conjunct2, THEN conjunct1,
      rule_format, OF b u]
  show ?thesis
    by (simp add: bind_def test_directory_def service_account_def)
qed

subsection \<open>The read-only option of the SQLite adapter\<close>




end
